theory Spec2Isabelle
  imports Complex_Main
begin

section \<open>Simple linear regression (Regreesion.py)\<close>

text \<open>
  The module is five pure functions over numpy arrays of float64. A float is a finite
  real or one of the three special values of IEEE-754. The code's arithmetic belongs to
  numpy, not to the module, so it is a parameter of the model: every operation computes
  its exact result and hands it to the rounding function \<open>rnd\<close> of that parameter, and
  \<^verbatim>\<open>np.sum\<close>, whose order of additions is numpy's own, is the parameter's \<open>np_sum\<close>. Two
  arithmetics are defined: \<open>float64\<close>, the binary64 arithmetic the code runs in, and
  \<open>exact\<close>, the arithmetic without rounding in which the algebra of the specification
  holds. The sign of zero is not modelled: both divisors of the module are sums of
  squares, whose zero is the positive zero, so a finite value divided by zero takes the
  sign of the numerator.
\<close>

subsection \<open>Values and arithmetic\<close>

datatype npfloat = Fin real | PInf | MInf | NaN

datatype error = ValueError string

record numpy =
  rnd :: "real \<Rightarrow> npfloat"
  np_sum :: "npfloat list \<Rightarrow> npfloat"

fun fneg :: "npfloat \<Rightarrow> npfloat" where
  "fneg (Fin a) = Fin (- a)"
| "fneg PInf = MInf"
| "fneg MInf = PInf"
| "fneg NaN = NaN"

fun fadd :: "(real \<Rightarrow> npfloat) \<Rightarrow> npfloat \<Rightarrow> npfloat \<Rightarrow> npfloat" where
  "fadd r (Fin a) (Fin b) = r (a + b)"
| "fadd r NaN v = NaN"
| "fadd r v NaN = NaN"
| "fadd r PInf MInf = NaN"
| "fadd r MInf PInf = NaN"
| "fadd r PInf v = PInf"
| "fadd r v PInf = PInf"
| "fadd r MInf v = MInf"
| "fadd r v MInf = MInf"

definition fsub :: "(real \<Rightarrow> npfloat) \<Rightarrow> npfloat \<Rightarrow> npfloat \<Rightarrow> npfloat" where
  "fsub r a b = fadd r a (fneg b)"

fun fmul :: "(real \<Rightarrow> npfloat) \<Rightarrow> npfloat \<Rightarrow> npfloat \<Rightarrow> npfloat" where
  "fmul r (Fin a) (Fin b) = r (a * b)"
| "fmul r NaN v = NaN"
| "fmul r v NaN = NaN"
| "fmul r (Fin a) PInf = (if a = 0 then NaN else if 0 < a then PInf else MInf)"
| "fmul r (Fin a) MInf = (if a = 0 then NaN else if 0 < a then MInf else PInf)"
| "fmul r PInf (Fin b) = (if b = 0 then NaN else if 0 < b then PInf else MInf)"
| "fmul r MInf (Fin b) = (if b = 0 then NaN else if 0 < b then MInf else PInf)"
| "fmul r PInf PInf = PInf"
| "fmul r PInf MInf = MInf"
| "fmul r MInf PInf = MInf"
| "fmul r MInf MInf = PInf"

fun fdiv :: "(real \<Rightarrow> npfloat) \<Rightarrow> npfloat \<Rightarrow> npfloat \<Rightarrow> npfloat" where
  "fdiv r (Fin a) (Fin b) =
     (if b = 0 then (if a = 0 then NaN else if 0 < a then PInf else MInf)
      else r (a / b))"
| "fdiv r NaN v = NaN"
| "fdiv r v NaN = NaN"
| "fdiv r (Fin a) PInf = Fin 0"
| "fdiv r (Fin a) MInf = Fin 0"
| "fdiv r PInf (Fin b) = (if b < 0 then MInf else PInf)"
| "fdiv r MInf (Fin b) = (if b < 0 then PInf else MInf)"
| "fdiv r PInf PInf = NaN"
| "fdiv r PInf MInf = NaN"
| "fdiv r MInf PInf = NaN"
| "fdiv r MInf MInf = NaN"

text \<open>\<^verbatim>\<open>v ** 2\<close> on an array squares each element.\<close>

definition fsquare :: "(real \<Rightarrow> npfloat) \<Rightarrow> npfloat \<Rightarrow> npfloat" where
  "fsquare r v = fmul r v v"

fun np_sqrt :: "(real \<Rightarrow> npfloat) \<Rightarrow> npfloat \<Rightarrow> npfloat" where
  "np_sqrt r (Fin a) = (if a < 0 then NaN else r (sqrt a))"
| "np_sqrt r PInf = PInf"
| "np_sqrt r MInf = NaN"
| "np_sqrt r NaN = NaN"

text \<open>\<^verbatim>\<open>np.mean\<close> divides the sum by the number of elements.\<close>

definition np_mean :: "numpy \<Rightarrow> npfloat list \<Rightarrow> npfloat" where
  "np_mean np vs = fdiv (rnd np) (np_sum np vs) (Fin (real (length vs)))"

definition is_finite :: "npfloat \<Rightarrow> bool" where
  "is_finite v = (case v of Fin a \<Rightarrow> True | PInf \<Rightarrow> False | MInf \<Rightarrow> False | NaN \<Rightarrow> False)"

text \<open>The comparison \<^verbatim>\<open><=\<close> of floats: false whenever a side is not a number.\<close>

fun fle :: "npfloat \<Rightarrow> npfloat \<Rightarrow> bool" where
  "fle (Fin a) (Fin b) = (a \<le> b)"
| "fle NaN v = False"
| "fle v NaN = False"
| "fle MInf v = True"
| "fle v PInf = True"
| "fle PInf v = False"
| "fle v MInf = False"

subsection \<open>The five operations\<close>

text \<open>\<^verbatim>\<open>linear_regression_coefficients\<close> (the spec's fit), lines 24 to 40.\<close>

definition linear_regression_coefficients ::
    "numpy \<Rightarrow> npfloat list \<Rightarrow> npfloat list \<Rightarrow> error + npfloat list" where
  "linear_regression_coefficients np x y =
     (if length x \<noteq> length y then Inl (ValueError ''x and y must have the same length'')
      else if length x = 0 \<or> length y = 0 then Inl (ValueError ''x and y cannot be empty'')
      else
        let x_mean = np_mean np x;
            y_mean = np_mean np y;
            b1 = fdiv (rnd np)
                   (np_sum np (map2 (fmul (rnd np)) x (map (\<lambda>v. fsub (rnd np) v y_mean) y)))
                   (np_sum np (map (\<lambda>v. fsquare (rnd np) (fsub (rnd np) v x_mean)) x));
            b0 = fsub (rnd np) y_mean (fmul (rnd np) b1 x_mean)
        in Inr [b1, b0])"

text \<open>\<^verbatim>\<open>linear_function\<close> (the spec's predict), lines 63 to 67.\<close>

definition linear_function ::
    "numpy \<Rightarrow> npfloat list \<Rightarrow> npfloat list \<Rightarrow> error + npfloat list" where
  "linear_function np x coef =
     (if length coef \<noteq> 2
      then Inl (ValueError ''coef must contain exactly two elements: [b1, b0]'')
      else Inr (map (\<lambda>v. fadd (rnd np) (fmul (rnd np) (coef ! 0) v) (coef ! 1)) x))"

text \<open>The two sums of squares of \<^verbatim>\<open>r_squared\<close>, lines 103 and 106.\<close>

definition total_variance :: "numpy \<Rightarrow> npfloat list \<Rightarrow> npfloat" where
  "total_variance np y = np_sum np (map (\<lambda>v. fsquare (rnd np) (fsub (rnd np) v (np_mean np y))) y)"

definition residual_variance :: "numpy \<Rightarrow> npfloat list \<Rightarrow> npfloat list \<Rightarrow> npfloat" where
  "residual_variance np y y_pred =
     np_sum np (map (fsquare (rnd np)) (map2 (fsub (rnd np)) y y_pred))"

definition r_squared ::
    "numpy \<Rightarrow> npfloat list \<Rightarrow> npfloat list \<Rightarrow> npfloat list \<Rightarrow> error + npfloat" where
  "r_squared np x y coef =
     (if length x \<noteq> length y then Inl (ValueError ''x and y must have the same length'')
      else if length x = 0 \<or> length y = 0 then Inl (ValueError ''x and y cannot be empty'')
      else if length coef \<noteq> 2
      then Inl (ValueError ''coef must contain exactly two elements: [b1, b0]'')
      else
        (case linear_function np x coef of
           Inl e \<Rightarrow> Inl e
         | Inr y_pred \<Rightarrow>
             Inr (fsub (rnd np) (Fin 1)
                    (fdiv (rnd np) (residual_variance np y y_pred) (total_variance np y)))))"

definition mean_squared_error ::
    "numpy \<Rightarrow> npfloat list \<Rightarrow> npfloat list \<Rightarrow> error + npfloat" where
  "mean_squared_error np y_true y_pred =
     (if length y_true \<noteq> length y_pred
      then Inl (ValueError ''y_true and y_pred must have the same length'')
      else if length y_true = 0 \<or> length y_pred = 0
      then Inl (ValueError ''y_true and y_pred cannot be empty'')
      else Inr (np_mean np (map (fsquare (rnd np)) (map2 (fsub (rnd np)) y_true y_pred))))"

definition root_mean_squared_error ::
    "numpy \<Rightarrow> npfloat list \<Rightarrow> npfloat list \<Rightarrow> error + npfloat" where
  "root_mean_squared_error np y_true y_pred =
     (if length y_true \<noteq> length y_pred
      then Inl (ValueError ''y_true and y_pred must have the same length'')
      else if length y_true = 0 \<or> length y_pred = 0
      then Inl (ValueError ''y_true and y_pred cannot be empty'')
      else
        (case mean_squared_error np y_true y_pred of
           Inl e \<Rightarrow> Inl e
         | Inr m \<Rightarrow> Inr (np_sqrt (rnd np) m)))"

text \<open>Every error the module raises is a \<^verbatim>\<open>ValueError\<close>, the spec's InvalidArgument.\<close>

definition invalid_argument :: "error + 'a \<Rightarrow> bool" where
  "invalid_argument r = (case r of Inl (ValueError m) \<Rightarrow> True | Inr v \<Rightarrow> False)"

subsection \<open>The two arithmetics\<close>

text \<open>
  Adding the elements in order, from zero. numpy does so for arrays of fewer than
  eight elements and adds longer ones in blocks.
\<close>

definition seq_sum :: "(real \<Rightarrow> npfloat) \<Rightarrow> npfloat list \<Rightarrow> npfloat" where
  "seq_sum r vs = foldl (fadd r) (Fin 0) vs"

text \<open>No rounding: every operation returns its exact result.\<close>

definition exact :: numpy where
  "exact = \<lparr>rnd = Fin, np_sum = seq_sum Fin\<rparr>"

text \<open>
  IEEE-754 binary64, rounding to nearest with ties to even: 53 significant bits,
  subnormal numbers below \<open>2\<^sup>-\<^sup>1\<^sup>0\<^sup>2\<^sup>2\<close> and infinity from \<open>2\<^sup>1\<^sup>0\<^sup>2\<^sup>4\<close> on. \<open>ilog2 x\<close> is the
  exponent of a positive \<open>x\<close>: the integer \<open>e\<close> with \<open>2\<^sup>e \<le> x < 2\<^sup>e\<^sup>+\<^sup>1\<close>.
\<close>

function bit_length :: "int \<Rightarrow> int" where
  "bit_length n = (if n \<le> 0 then 0 else 1 + bit_length (n div 2))"
  by pat_completeness auto
termination
  by (relation "measure nat") auto

definition ilog2 :: "real \<Rightarrow> int" where
  "ilog2 x = (if 1 \<le> x then bit_length \<lfloor>x\<rfloor> - 1 else - bit_length (\<lceil>1 / x\<rceil> - 1))"

definition pow2 :: "int \<Rightarrow> real" where
  "pow2 k = (if 0 \<le> k then 2 ^ nat k else 1 / 2 ^ nat (- k))"

definition round_half_even :: "real \<Rightarrow> int" where
  "round_half_even x =
     (let f = \<lfloor>x\<rfloor>; d = x - of_int f
      in if d < 1 / 2 then f else if 1 / 2 < d then f + 1
         else if even f then f else f + 1)"

definition float64_round :: "real \<Rightarrow> npfloat" where
  "float64_round x =
     (if x = 0 then Fin 0
      else
        let e = max (ilog2 \<bar>x\<bar>) (- 1022);
            ulp = pow2 (e - 52);
            v = of_int (round_half_even (\<bar>x\<bar> / ulp)) * ulp
        in if pow2 1024 \<le> v then (if 0 < x then PInf else MInf)
           else Fin (sgn x * v))"

definition float64 :: numpy where
  "float64 = \<lparr>rnd = float64_round, np_sum = seq_sum float64_round\<rparr>"

subsection \<open>Notions of the specification\<close>

text \<open>The arithmetic mean of a list of reals, for stating results.\<close>

definition mean :: "real list \<Rightarrow> real" where
  "mean xs = sum_list xs / real (length xs)"

text \<open>A list of reals all of whose elements are the same value.\<close>

definition all_identical :: "real list \<Rightarrow> bool" where
  "all_identical xs = (\<forall>v \<in> set xs. v = hd xs)"

text \<open>
  The slope as the specification writes it, evaluated in a given arithmetic: the
  numerator over the raw \<open>x\<^sub>i\<close>, the numerator over the centred \<open>x\<^sub>i\<close> of the textbook
  formula, and the divisor.
\<close>

definition raw_numerator :: "numpy \<Rightarrow> real list \<Rightarrow> real list \<Rightarrow> npfloat" where
  "raw_numerator np xs ys =
     np_sum np (map (\<lambda>i. fmul (rnd np) (Fin (xs ! i))
                            (fsub (rnd np) (Fin (ys ! i)) (np_mean np (map Fin ys))))
                  [0..<length xs])"

definition centred_numerator :: "numpy \<Rightarrow> real list \<Rightarrow> real list \<Rightarrow> npfloat" where
  "centred_numerator np xs ys =
     np_sum np (map (\<lambda>i. fmul (rnd np) (fsub (rnd np) (Fin (xs ! i)) (np_mean np (map Fin xs)))
                            (fsub (rnd np) (Fin (ys ! i)) (np_mean np (map Fin ys))))
                  [0..<length xs])"

definition divisor :: "numpy \<Rightarrow> real list \<Rightarrow> npfloat" where
  "divisor np xs =
     np_sum np (map (\<lambda>i. fsquare (rnd np) (fsub (rnd np) (Fin (xs ! i)) (np_mean np (map Fin xs))))
                  [0..<length xs])"

declare bit_length.simps [simp del]

subsection \<open>The exact arithmetic: from the float operations to real arithmetic\<close>

lemma rnd_exact: "rnd exact = Fin"
  by (simp add: exact_def)

lemma foldl_fadd_Fin: "foldl (fadd Fin) (Fin a) (map Fin xs) = Fin (a + sum_list xs)"
  by (induction xs arbitrary: a) (simp_all add: add.assoc)

lemma np_sum_Fin: "np_sum exact (map Fin xs) = Fin (sum_list xs)"
  by (simp add: exact_def seq_sum_def foldl_fadd_Fin)

lemma np_mean_Fin:
  "np_mean exact (map Fin xs) = fdiv Fin (Fin (sum_list xs)) (Fin (real (length xs)))"
  by (simp add: np_mean_def np_sum_Fin rnd_exact)

lemma np_mean_Fin_nonempty: "xs \<noteq> [] \<Longrightarrow> np_mean exact (map Fin xs) = Fin (mean xs)"
  by (simp add: np_mean_Fin mean_def)

lemma sum_list_nth: "sum_list (xs :: real list) = (\<Sum>i<length xs. xs ! i)"
  by (simp add: sum_list_sum_nth atLeast0LessThan)

lemma sum_list_map_nth: "sum_list (map f xs) = (\<Sum>i<length xs. (f (xs ! i) :: real))"
  using sum_list_nth [of "map f xs"] by simp

lemma sum_list_map2_nth:
  "length xs = length ys \<Longrightarrow>
   sum_list (map2 f xs ys) = (\<Sum>i<length xs. (f (xs ! i) (ys ! i) :: real))"
  using sum_list_nth [of "map2 f xs ys"] by simp

lemma sq_sub_mean_Fin:
  "map (\<lambda>v. fsquare Fin (fsub Fin v (Fin m))) (map Fin xs) = map Fin (map (\<lambda>a. (a - m)\<^sup>2) xs)"
  by (simp add: fsub_def fsquare_def power2_eq_square)

lemma sq_diff_Fin:
  "map (fsquare Fin) (map2 (fsub Fin) (map Fin ys) (map Fin ps)) =
   map Fin (map2 (\<lambda>a b. (a - b)\<^sup>2) ys ps)"
  by (auto simp: zip_map_map fsub_def fsquare_def power2_eq_square)

lemma residual_variance_Fin:
  "length ys = length ps \<Longrightarrow>
   residual_variance exact (map Fin ys) (map Fin ps) = Fin (\<Sum>i<length ys. (ys ! i - ps ! i)\<^sup>2)"
  by (simp only: residual_variance_def rnd_exact sq_diff_Fin np_sum_Fin sum_list_map2_nth)

lemma total_variance_Fin:
  "ys \<noteq> [] \<Longrightarrow>
   total_variance exact (map Fin ys) = Fin (\<Sum>i<length ys. (ys ! i - mean ys)\<^sup>2)"
proof -
  assume "ys \<noteq> []"
  then have "np_mean exact (map Fin ys) = Fin (mean ys)"
    by (rule np_mean_Fin_nonempty)
  then show ?thesis
    by (simp only: total_variance_def rnd_exact sq_sub_mean_Fin np_sum_Fin sum_list_map_nth)
qed

lemma linear_function_Fin:
  "linear_function exact (map Fin xs) [Fin b1, Fin b0] =
   Inr (map Fin (map (\<lambda>v. b1 * v + b0) xs))"
  by (simp add: linear_function_def rnd_exact)

lemma fit_Fin:
  assumes "length xs = length ys" and "xs \<noteq> []"
  shows "linear_regression_coefficients exact (map Fin xs) (map Fin ys) =
     Inr [fdiv Fin (Fin (\<Sum>i<length xs. xs ! i * (ys ! i - mean ys)))
                   (Fin (\<Sum>i<length xs. (xs ! i - mean xs)\<^sup>2)),
          fsub Fin (Fin (mean ys))
               (fmul Fin (fdiv Fin (Fin (\<Sum>i<length xs. xs ! i * (ys ! i - mean ys)))
                                   (Fin (\<Sum>i<length xs. (xs ! i - mean xs)\<^sup>2)))
                         (Fin (mean xs)))]"
proof -
  from assms have ys: "ys \<noteq> []" by auto
  have num: "np_sum exact (map2 (fmul Fin) (map Fin xs)
                 (map (\<lambda>v. fsub Fin v (Fin (mean ys))) (map Fin ys)))
      = Fin (\<Sum>i<length xs. xs ! i * (ys ! i - mean ys))"
  proof -
    have "map2 (fmul Fin) (map Fin xs) (map (\<lambda>v. fsub Fin v (Fin (mean ys))) (map Fin ys))
        = map Fin (map2 (\<lambda>a b. a * (b - mean ys)) xs ys)"
      by (auto simp: zip_map_map fsub_def)
    then show ?thesis
      using assms(1) by (simp only: np_sum_Fin sum_list_map2_nth)
  qed
  have den: "np_sum exact (map (\<lambda>v. fsquare Fin (fsub Fin v (Fin (mean xs)))) (map Fin xs))
      = Fin (\<Sum>i<length xs. (xs ! i - mean xs)\<^sup>2)"
    by (simp only: sq_sub_mean_Fin np_sum_Fin sum_list_map_nth)
  have mx: "np_mean exact (map Fin xs) = Fin (mean xs)"
    using assms(2) by (rule np_mean_Fin_nonempty)
  have my: "np_mean exact (map Fin ys) = Fin (mean ys)"
    using ys by (rule np_mean_Fin_nonempty)
  have chk: "length (map Fin xs) = length (map Fin ys)" "length (map Fin xs) \<noteq> 0"
    "length (map Fin ys) \<noteq> 0"
    using assms ys by simp_all
  show ?thesis
    unfolding linear_regression_coefficients_def Let_def rnd_exact mx my num den
    using chk by (simp only: if_False not_False_eq_True simp_thms)
qed

subsection \<open>Sums of deviations\<close>

lemma sum_dev_zero: "xs \<noteq> [] \<Longrightarrow> (\<Sum>i<length xs. xs ! i - mean xs) = 0"
  by (simp add: sum_subtractf mean_def sum_list_nth)

lemma sum_cross_centered:
  assumes "ys \<noteq> []"
  shows "(\<Sum>i<length ys. (f i - m) * (ys ! i - mean ys)) =
         (\<Sum>i<length ys. f i * (ys ! i - mean ys))"
proof -
  have "(\<Sum>i<length ys. (f i - m) * (ys ! i - mean ys))
      = (\<Sum>i<length ys. f i * (ys ! i - mean ys)) - m * (\<Sum>i<length ys. ys ! i - mean ys)"
    by (simp only: left_diff_distrib sum_subtractf sum_distrib_left [symmetric])
  then show ?thesis
    using sum_dev_zero [OF assms] by simp
qed

lemma sxy_centered:
  assumes "length xs = length ys" and "xs \<noteq> []"
  shows "(\<Sum>i<length xs. xs ! i * (ys ! i - mean ys))
       = (\<Sum>i<length xs. (xs ! i - mean xs) * (ys ! i - mean ys))"
proof -
  from assms have "ys \<noteq> []" by auto
  from sum_cross_centered [OF this, of "\<lambda>i. xs ! i" "mean xs"] assms(1)
  show ?thesis by simp
qed

lemma sxx_raw:
  assumes "xs \<noteq> []"
  shows "(\<Sum>i<length xs. xs ! i * (xs ! i - mean xs)) = (\<Sum>i<length xs. (xs ! i - mean xs)\<^sup>2)"
  using sum_cross_centered [OF assms, of "\<lambda>i. xs ! i" "mean xs"]
  by (simp add: power2_eq_square)

lemma sum_squares_zero_iff:
  "(\<Sum>i<(n::nat). (f i :: real)\<^sup>2) = 0 \<longleftrightarrow> (\<forall>i<n. f i = 0)"
  by (subst sum_nonneg_eq_0_iff) auto

lemma sxx_zero_iff:
  "(\<Sum>i<length xs. (xs ! i - mean xs)\<^sup>2) = 0 \<longleftrightarrow> (\<forall>i<length xs. xs ! i = mean xs)"
  by (simp add: sum_squares_zero_iff)

lemma lessThan_5: "{..<5::nat} = {0, 1, 2, 3, 4}"
  by auto

subsection \<open>Identical values and the zero divisor\<close>

lemma all_identical_nth_mean:
  assumes "all_identical xs" and "xs \<noteq> []"
  shows "\<forall>i<length xs. xs ! i = mean xs"
proof -
  have el: "\<forall>i<length xs. xs ! i = hd xs"
    using assms(1) by (simp add: all_identical_def)
  then have "(\<Sum>i<length xs. xs ! i) = (\<Sum>i<length xs. hd xs)"
    by simp
  then have "mean xs = hd xs"
    using assms(2) by (simp add: mean_def sum_list_nth)
  with el show ?thesis by simp
qed

lemma nth_mean_all_identical:
  assumes "\<forall>i<length xs. xs ! i = mean xs"
  shows "all_identical xs"
proof (cases xs)
  case Nil
  then show ?thesis by (simp add: all_identical_def)
next
  case (Cons a as)
  then have "hd xs = mean xs"
    using assms by (auto simp: hd_conv_nth)
  then show ?thesis
    using assms by (auto simp: all_identical_def in_set_conv_nth)
qed

lemma all_identical_iff_sxx:
  "all_identical xs \<longleftrightarrow> (\<Sum>i<length xs. (xs ! i - mean xs)\<^sup>2) = 0"
proof (cases "xs = []")
  case True
  then show ?thesis by (simp add: all_identical_def)
next
  case False
  then show ?thesis
    using all_identical_nth_mean [of xs] nth_mean_all_identical [of xs]
    by (auto simp: sxx_zero_iff)
qed

lemma all_identical_sxy:
  assumes "all_identical xs" and "xs \<noteq> []" and "length xs = length ys"
  shows "(\<Sum>i<length xs. xs ! i * (ys ! i - mean ys)) = 0"
proof -
  from assms have ys: "ys \<noteq> []" by auto
  have "(\<Sum>i<length xs. xs ! i * (ys ! i - mean ys)) = (\<Sum>i<length xs. mean xs * (ys ! i - mean ys))"
    using all_identical_nth_mean [OF assms(1,2)] by simp
  also have "\<dots> = mean xs * (\<Sum>i<length ys. ys ! i - mean ys)"
    by (simp only: sum_distrib_left assms(3))
  finally show ?thesis
    using sum_dev_zero [OF ys] by simp
qed

subsection \<open>The normal equations and least squares\<close>

lemma residual_sum_zero:
  assumes "length xs = length ys" and "xs \<noteq> []"
  shows "(\<Sum>i<length xs. ys ! i - (b1 * xs ! i + (mean ys - b1 * mean xs))) = 0"
proof -
  from assms have ys: "ys \<noteq> []" by auto
  have "(\<Sum>i<length xs. ys ! i - (b1 * xs ! i + (mean ys - b1 * mean xs)))
      = (\<Sum>i<length xs. (ys ! i - mean ys) - b1 * (xs ! i - mean xs))"
    by (simp add: algebra_simps)
  also have "\<dots> = (\<Sum>i<length ys. ys ! i - mean ys) - b1 * (\<Sum>i<length xs. xs ! i - mean xs)"
    by (simp only: sum_subtractf [of "\<lambda>i. ys ! i - mean ys"] sum_distrib_left [symmetric] assms(1))
  also have "\<dots> = 0"
    using sum_dev_zero [OF ys] sum_dev_zero [OF assms(2)] by simp
  finally show ?thesis .
qed

lemma residual_cross_zero:
  assumes "length xs = length ys" and "xs \<noteq> []"
    and "(\<Sum>i<length xs. (xs ! i - mean xs)\<^sup>2) \<noteq> 0"
    and "b1 = (\<Sum>i<length xs. xs ! i * (ys ! i - mean ys)) / (\<Sum>i<length xs. (xs ! i - mean xs)\<^sup>2)"
  shows "(\<Sum>i<length xs. (ys ! i - (b1 * xs ! i + (mean ys - b1 * mean xs))) * xs ! i) = 0"
proof -
  have "(\<Sum>i<length xs. (ys ! i - (b1 * xs ! i + (mean ys - b1 * mean xs))) * xs ! i)
      = (\<Sum>i<length xs. xs ! i * (ys ! i - mean ys) - b1 * (xs ! i * (xs ! i - mean xs)))"
    by (simp add: algebra_simps)
  also have "\<dots> = (\<Sum>i<length xs. xs ! i * (ys ! i - mean ys))
                  - b1 * (\<Sum>i<length xs. xs ! i * (xs ! i - mean xs))"
    by (simp only: sum_subtractf [of "\<lambda>i. xs ! i * (ys ! i - mean ys)"] sum_distrib_left [symmetric])
  also have "\<dots> = (\<Sum>i<length xs. xs ! i * (ys ! i - mean ys))
                  - b1 * (\<Sum>i<length xs. (xs ! i - mean xs)\<^sup>2)"
    by (simp only: sxx_raw [OF assms(2)])
  also have "\<dots> = 0"
    using assms(3) by (simp add: assms(4))
  finally show ?thesis .
qed

lemma sse_decompose:
  fixes r :: "nat \<Rightarrow> real"
  assumes "(\<Sum>i<n. r i) = 0" and "(\<Sum>i<n. r i * x i) = 0"
  shows "(\<Sum>i<n. (r i + (d1 * x i + d0))\<^sup>2) = (\<Sum>i<n. (r i)\<^sup>2) + (\<Sum>i<n. (d1 * x i + d0)\<^sup>2)"
proof -
  have "(\<Sum>i<n. (r i + (d1 * x i + d0))\<^sup>2)
      = (\<Sum>i<n. (r i)\<^sup>2 + (d1 * x i + d0)\<^sup>2 + (2 * d1 * (r i * x i) + 2 * d0 * r i))"
    by (rule sum.cong) (simp_all add: power2_eq_square algebra_simps)
  also have "\<dots> = (\<Sum>i<n. (r i)\<^sup>2) + (\<Sum>i<n. (d1 * x i + d0)\<^sup>2)
                  + (2 * d1 * (\<Sum>i<n. r i * x i) + 2 * d0 * (\<Sum>i<n. r i))"
    by (simp only: sum.distrib sum_distrib_left [symmetric])
  finally show ?thesis
    using assms by simp
qed

lemma least_squares:
  assumes "length xs = length ys" and "xs \<noteq> []"
    and "(\<Sum>i<length xs. (xs ! i - mean xs)\<^sup>2) \<noteq> 0"
    and "b1 = (\<Sum>i<length xs. xs ! i * (ys ! i - mean ys)) / (\<Sum>i<length xs. (xs ! i - mean xs)\<^sup>2)"
    and "b0 = mean ys - b1 * mean xs"
  shows "(\<Sum>i<length xs. (ys ! i - (b1 * xs ! i + b0))\<^sup>2)
       \<le> (\<Sum>i<length xs. (ys ! i - (c1 * xs ! i + c0))\<^sup>2)"
proof -
  let ?r = "\<lambda>i. ys ! i - (b1 * xs ! i + b0)"
  have r0: "(\<Sum>i<length xs. ?r i) = 0"
    unfolding assms(5) using assms(1,2) by (rule residual_sum_zero)
  have r1: "(\<Sum>i<length xs. ?r i * xs ! i) = 0"
    unfolding assms(5) using assms(1-4) by (rule residual_cross_zero)
  have "(\<Sum>i<length xs. (ys ! i - (c1 * xs ! i + c0))\<^sup>2)
      = (\<Sum>i<length xs. (?r i + ((b1 - c1) * xs ! i + (b0 - c0)))\<^sup>2)"
    by (rule sum.cong) (simp_all add: algebra_simps)
  also have "\<dots> = (\<Sum>i<length xs. (?r i)\<^sup>2) + (\<Sum>i<length xs. ((b1 - c1) * xs ! i + (b0 - c0))\<^sup>2)"
    using r0 r1 by (rule sse_decompose)
  finally show ?thesis
    by (simp add: sum_nonneg)
qed

lemma mean_of_line:
  assumes "length xs = length ys" and "xs \<noteq> []"
    and "\<forall>i<length xs. ys ! i = c1 * xs ! i + c0"
  shows "mean ys = c1 * mean xs + c0"
proof -
  have "(\<Sum>i<length ys. ys ! i) = (\<Sum>i<length xs. c1 * xs ! i + c0)"
    using assms(1,3) by simp
  also have "\<dots> = c1 * (\<Sum>i<length xs. xs ! i) + real (length xs) * c0"
    by (simp add: sum.distrib sum_distrib_left)
  finally have "sum_list ys = c1 * sum_list xs + real (length xs) * c0"
    by (simp only: sum_list_nth)
  moreover have "real (length xs) \<noteq> 0"
    using assms(2) by simp
  ultimately show ?thesis
    using assms(1) by (simp add: mean_def add_divide_distrib)
qed

lemma line_identical:
  assumes "length xs = length ys" and "all_identical xs"
    and "\<forall>i<length xs. ys ! i = c1 * xs ! i + c0"
  shows "all_identical ys"
proof -
  have "\<forall>i<length xs. xs ! i = hd xs"
    using assms(2) by (simp add: all_identical_def)
  with assms(1,3) have el: "\<forall>i<length ys. ys ! i = c1 * hd xs + c0"
    by simp
  show ?thesis
  proof (cases ys)
    case Nil
    then show ?thesis by (simp add: all_identical_def)
  next
    case (Cons b bs)
    with el have "hd ys = c1 * hd xs + c0"
      by (auto simp: hd_conv_nth)
    with el show ?thesis
      by (auto simp: all_identical_def in_set_conv_nth)
  qed
qed

subsection \<open>A square root\<close>

lemma sqrt_69_25_bounds: "16613 / 10000 < sqrt (69 / 25) \<and> sqrt (69 / 25) < 16614 / 10000"
proof
  show "16613 / 10000 < sqrt (69 / 25)"
    by (rule real_less_rsqrt) (simp add: power2_eq_square)
  show "sqrt (69 / 25) < 16614 / 10000"
    by (rule real_less_lsqrt) (simp_all add: power2_eq_square)
qed

subsection \<open>Validation\<close>

lemma invalid_argument_simps:
  "invalid_argument (Inl (ValueError m)) = True" "invalid_argument (Inr v) = False"
  by (simp_all add: invalid_argument_def)

lemma fit_invalid_iff:
  "invalid_argument (linear_regression_coefficients np x y) \<longleftrightarrow>
     length x \<noteq> length y \<or> x = [] \<or> y = []"
  by (auto simp: linear_regression_coefficients_def Let_def invalid_argument_simps)

lemma r_squared_invalid_iff:
  "invalid_argument (r_squared np x y coef) \<longleftrightarrow>
     length x \<noteq> length y \<or> x = [] \<or> y = [] \<or> length coef \<noteq> 2"
  by (auto simp: r_squared_def linear_function_def invalid_argument_simps)

lemma mse_invalid_iff:
  "invalid_argument (mean_squared_error np a b) \<longleftrightarrow> length a \<noteq> length b \<or> a = [] \<or> b = []"
  by (auto simp: mean_squared_error_def invalid_argument_simps)

lemma rmse_invalid_iff:
  "invalid_argument (root_mean_squared_error np a b) \<longleftrightarrow>
     length a \<noteq> length b \<or> a = [] \<or> b = []"
  by (auto simp: root_mean_squared_error_def mean_squared_error_def invalid_argument_simps)

lemma predict_invalid_iff:
  "invalid_argument (linear_function np x coef) \<longleftrightarrow> length coef \<noteq> 2"
  by (simp add: linear_function_def invalid_argument_simps)

subsection \<open>The two error measures\<close>

lemma mse_Fin:
  assumes "length as = length bs" and "as \<noteq> []"
  shows "mean_squared_error exact (map Fin as) (map Fin bs) =
           Inr (Fin ((\<Sum>i<length as. (as ! i - bs ! i)\<^sup>2) / real (length as)))"
proof -
  from assms have bs: "bs \<noteq> []" by auto
  have "np_mean exact (map (fsquare Fin) (map2 (fsub Fin) (map Fin as) (map Fin bs)))
      = Fin ((\<Sum>i<length as. (as ! i - bs ! i)\<^sup>2) / real (length as))"
    using assms by (simp only: sq_diff_Fin np_mean_Fin) (auto simp: sum_list_map2_nth)
  then show ?thesis
    using assms bs by (simp add: mean_squared_error_def rnd_exact del: map_map)
qed

lemma rmse_Fin:
  assumes "length as = length bs" and "as \<noteq> []"
  shows "root_mean_squared_error exact (map Fin as) (map Fin bs) =
           Inr (Fin (sqrt ((\<Sum>i<length as. (as ! i - bs ! i)\<^sup>2) / real (length as))))"
proof -
  from assms have bs: "bs \<noteq> []" by auto
  have "0 \<le> (\<Sum>i<length as. (as ! i - bs ! i)\<^sup>2) / real (length as)"
    by (simp add: sum_nonneg)
  then show ?thesis
    using assms bs by (simp add: root_mean_squared_error_def mse_Fin rnd_exact del: map_map)
qed

text \<open>Rounding is symmetric about zero; then so is the squared difference.\<close>

lemma fsquare_fneg: "fsquare r (fneg w) = fsquare r w"
  by (cases w) (simp_all add: fsquare_def)

lemma fsub_swap:
  assumes "\<forall>v. r (- v) = fneg (r v)"
  shows "fsub r b a = fneg (fsub r a b)"
proof (cases a; cases b)
  fix p q assume "a = Fin p" "b = Fin q"
  moreover have "r (q - p) = fneg (r (p - q))"
    using assms [rule_format, of "p - q"] by simp
  ultimately show ?thesis by (simp add: fsub_def)
qed (simp_all add: fsub_def)

lemma fsquare_fsub_commute:
  assumes "\<forall>v. r (- v) = fneg (r v)"
  shows "fsquare r (fsub r a b) = fsquare r (fsub r b a)"
  by (simp only: fsub_swap [OF assms, of b a] fsquare_fneg)

lemma sq_diff_commute:
  assumes "\<forall>v. r (- v) = fneg (r v)"
  shows "map (fsquare r) (map2 (fsub r) a b) = map (fsquare r) (map2 (fsub r) b a)"
proof (induction a arbitrary: b)
  case Nil
  then show ?case by simp
next
  case (Cons u a)
  then show ?case
    by (cases b) (simp_all add: fsquare_fsub_commute [OF assms])
qed

lemma mse_commute:
  assumes "\<forall>v. rnd np (- v) = fneg (rnd np v)"
  shows "mean_squared_error np a b = mean_squared_error np b a"
proof -
  have "np_mean np (map (fsquare (rnd np)) (map2 (fsub (rnd np)) a b)) =
        np_mean np (map (fsquare (rnd np)) (map2 (fsub (rnd np)) b a))"
    by (simp only: sq_diff_commute [OF assms, of a b])
  then show ?thesis
    unfolding mean_squared_error_def
    by (auto simp del: map_map)
qed

lemma rmse_commute:
  assumes "\<forall>v. rnd np (- v) = fneg (rnd np v)"
  shows "root_mean_squared_error np a b = root_mean_squared_error np b a"
  unfolding root_mean_squared_error_def
  by (auto simp: mse_commute [OF assms, of a b])

lemma exact_symmetric: "\<forall>v. rnd exact (- v) = fneg (rnd exact v)"
  by (simp add: rnd_exact)

lemma float64_round_minus: "float64_round (- x) = fneg (float64_round x)"
  by (simp add: float64_round_def Let_def sgn_if)

lemma float64_symmetric: "\<forall>v. rnd float64 (- v) = fneg (rnd float64 v)"
  by (simp add: float64_def float64_round_minus)

text \<open>Equal inputs: every difference, every square and their mean are zero.\<close>

lemma sq_diff_self:
  assumes "r 0 = Fin 0"
  shows "map (fsquare r) (map2 (fsub r) (map Fin ys) (map Fin ys)) =
         replicate (length ys) (Fin 0)"
  by (induction ys) (simp_all add: fsub_def fsquare_def assms)

lemma mse_self:
  assumes "rnd np 0 = Fin 0" and "np_sum np (replicate (length ys) (Fin 0)) = Fin 0"
    and "ys \<noteq> []"
  shows "mean_squared_error np (map Fin ys) (map Fin ys) = Inr (Fin 0)"
proof -
  have "np_mean np (map (fsquare (rnd np)) (map2 (fsub (rnd np)) (map Fin ys) (map Fin ys)))
      = fdiv (rnd np) (Fin 0) (Fin (real (length ys)))"
    using sq_diff_self [of "rnd np" ys] assms(1,2) by (simp only: np_mean_def length_replicate)
  also have "\<dots> = Fin 0"
    using assms(1,3) by simp
  finally show ?thesis
    using assms(3) by (simp add: mean_squared_error_def del: map_map)
qed

lemma seq_sum_zeros: "r 0 = Fin 0 \<Longrightarrow> seq_sum r (replicate n (Fin 0)) = Fin 0"
  by (induction n) (simp_all add: seq_sum_def)

lemma exact_zeros: "rnd exact 0 = Fin 0 \<and> np_sum exact (replicate n (Fin 0)) = Fin 0"
  by (simp add: exact_def seq_sum_zeros)

lemma float64_zeros: "rnd float64 0 = Fin 0 \<and> np_sum float64 (replicate n (Fin 0)) = Fin 0"
  by (simp add: float64_def seq_sum_zeros float64_round_def)

subsection \<open>The exact arithmetic: degenerate inputs, lines\<close>

text \<open>In exact arithmetic identical \<open>x\<^sub>i\<close> make both sums zero, and the fit NaN.\<close>

lemma fit_degenerate:
  assumes "length xs = length ys" and "xs \<noteq> []" and "all_identical xs"
  shows "linear_regression_coefficients exact (map Fin xs) (map Fin ys) = Inr [NaN, NaN]"
proof -
  have "(\<Sum>i<length xs. (xs ! i - mean xs)\<^sup>2) = 0"
    using assms(3) by (simp only: all_identical_iff_sxx)
  moreover have "(\<Sum>i<length xs. xs ! i * (ys ! i - mean ys)) = 0"
    using assms(3,2,1) by (rule all_identical_sxy)
  ultimately show ?thesis
    by (simp add: fit_Fin [OF assms(1,2)] fsub_def)
qed

lemma fit_closed_form:
  assumes "length xs = length ys" and "xs \<noteq> []"
    and "(\<Sum>i<length xs. (xs ! i - mean xs)\<^sup>2) \<noteq> 0"
  shows "linear_regression_coefficients exact (map Fin xs) (map Fin ys) =
           Inr [Fin ((\<Sum>i<length xs. xs ! i * (ys ! i - mean ys)) /
                     (\<Sum>i<length xs. (xs ! i - mean xs)\<^sup>2)),
                Fin (mean ys -
                     (\<Sum>i<length xs. xs ! i * (ys ! i - mean ys)) /
                     (\<Sum>i<length xs. (xs ! i - mean xs)\<^sup>2) * mean xs)]"
  using assms(3) by (simp add: fit_Fin [OF assms(1,2)] fsub_def)

lemma residual_of_line:
  assumes "length xs = length ys"
  shows "residual_variance exact (map Fin ys) (map Fin (map (\<lambda>v. b1 * v + b0) xs)) =
         Fin (\<Sum>i<length xs. (ys ! i - (b1 * xs ! i + b0))\<^sup>2)"
proof -
  have "length ys = length (map (\<lambda>v. b1 * v + b0) xs)"
    using assms by simp
  from residual_variance_Fin [OF this] assms show ?thesis
    by simp
qed

lemma fit_of_line:
  assumes "length xs = length ys" and "xs \<noteq> []"
    and "\<forall>i<length xs. ys ! i = c1 * xs ! i + c0"
    and "\<not> all_identical xs"
  shows "linear_regression_coefficients exact (map Fin xs) (map Fin ys) = Inr [Fin c1, Fin c0]"
proof -
  have my: "mean ys = c1 * mean xs + c0"
    using assms(1-3) by (rule mean_of_line)
  have sxx: "(\<Sum>i<length xs. (xs ! i - mean xs)\<^sup>2) \<noteq> 0"
    using assms(4) by (simp add: all_identical_iff_sxx)
  have "(\<Sum>i<length xs. xs ! i * (ys ! i - mean ys))
      = (\<Sum>i<length xs. c1 * (xs ! i * (xs ! i - mean xs)))"
    using assms(3) by (simp add: my algebra_simps)
  also have "\<dots> = c1 * (\<Sum>i<length xs. xs ! i * (xs ! i - mean xs))"
    by (simp only: sum_distrib_left)
  also have "\<dots> = c1 * (\<Sum>i<length xs. (xs ! i - mean xs)\<^sup>2)"
    by (simp only: sxx_raw [OF assms(2)])
  finally have sxy: "(\<Sum>i<length xs. xs ! i * (ys ! i - mean ys))
      = c1 * (\<Sum>i<length xs. (xs ! i - mean xs)\<^sup>2)" .
  have "fdiv Fin (Fin (\<Sum>i<length xs. xs ! i * (ys ! i - mean ys)))
                 (Fin (\<Sum>i<length xs. (xs ! i - mean xs)\<^sup>2)) = Fin c1"
    using sxx by (simp add: sxy)
  then show ?thesis
    by (simp add: fit_Fin [OF assms(1,2)] fsub_def my)
qed

lemma predict_of_line:
  assumes "length xs = length ys" and "\<forall>i<length xs. ys ! i = c1 * xs ! i + c0"
  shows "linear_function exact (map Fin xs) [Fin c1, Fin c0] = Inr (map Fin ys)"
proof -
  have "map (\<lambda>v. c1 * v + c0) xs = ys"
    using assms by (intro nth_equalityI) simp_all
  then show ?thesis
    by (simp only: linear_function_Fin)
qed

subsection \<open>Any arithmetic: the shape of the fit, and division by zero\<close>

lemma map2_nth:
  "length as = length bs \<Longrightarrow> map2 f as bs = map (\<lambda>i. f (as ! i) (bs ! i)) [0..<length as]"
  by (rule nth_equalityI) simp_all

lemma map_Fin_nth: "map g (map Fin xs) = map (\<lambda>i. g (Fin (xs ! i))) [0..<length xs]"
  by (rule nth_equalityI) simp_all

lemma fit_shape:
  assumes "length xs = length ys" and "xs \<noteq> []"
  shows "linear_regression_coefficients np (map Fin xs) (map Fin ys) =
           Inr [fdiv (rnd np) (raw_numerator np xs ys) (divisor np xs),
                fsub (rnd np) (np_mean np (map Fin ys))
                  (fmul (rnd np) (fdiv (rnd np) (raw_numerator np xs ys) (divisor np xs))
                     (np_mean np (map Fin xs)))]"
proof -
  from assms have ys: "ys \<noteq> []" by auto
  have num: "map2 (fmul (rnd np)) (map Fin xs)
               (map (\<lambda>v. fsub (rnd np) v (np_mean np (map Fin ys))) (map Fin ys))
      = map (\<lambda>i. fmul (rnd np) (Fin (xs ! i))
                    (fsub (rnd np) (Fin (ys ! i)) (np_mean np (map Fin ys))))
          [0..<length xs]"
    using assms(1) by (intro nth_equalityI) simp_all
  have den: "map (\<lambda>v. fsquare (rnd np) (fsub (rnd np) v (np_mean np (map Fin xs)))) (map Fin xs)
      = map (\<lambda>i. fsquare (rnd np) (fsub (rnd np) (Fin (xs ! i)) (np_mean np (map Fin xs))))
          [0..<length xs]"
    by (rule map_Fin_nth)
  have chk: "length (map Fin xs) = length (map Fin ys)" "length (map Fin xs) \<noteq> 0"
    "length (map Fin ys) \<noteq> 0"
    using assms ys by simp_all
  show ?thesis
    unfolding linear_regression_coefficients_def Let_def num den raw_numerator_def divisor_def
    using chk by (simp only: if_False not_False_eq_True simp_thms)
qed

lemma numerators_exact:
  assumes "length xs = length ys" and "xs \<noteq> []"
  shows "raw_numerator exact xs ys = Fin (\<Sum>i<length xs. xs ! i * (ys ! i - mean ys))"
    and "centred_numerator exact xs ys =
           Fin (\<Sum>i<length xs. (xs ! i - mean xs) * (ys ! i - mean ys))"
    and "divisor exact xs = Fin (\<Sum>i<length xs. (xs ! i - mean xs)\<^sup>2)"
proof -
  from assms have ys: "ys \<noteq> []" by auto
  have mx: "np_mean exact (map Fin xs) = Fin (mean xs)"
    using assms(2) by (rule np_mean_Fin_nonempty)
  have my: "np_mean exact (map Fin ys) = Fin (mean ys)"
    using ys by (rule np_mean_Fin_nonempty)
  have fin: "\<And>f n. map (\<lambda>i. Fin (f i)) [0..<n] = map Fin (map f [0..<n])"
    by simp
  have sm: "\<And>f n. sum_list (map f [0..<n]) = (\<Sum>i<n. (f i :: real))"
    by (simp add: sum_list_map_nth)
  show "raw_numerator exact xs ys = Fin (\<Sum>i<length xs. xs ! i * (ys ! i - mean ys))"
    unfolding raw_numerator_def mx my rnd_exact
    by (simp add: fsub_def fin np_sum_Fin sm del: map_map)
  show "centred_numerator exact xs ys =
           Fin (\<Sum>i<length xs. (xs ! i - mean xs) * (ys ! i - mean ys))"
    unfolding centred_numerator_def mx my rnd_exact
    by (simp add: fsub_def fin np_sum_Fin sm del: map_map)
  show "divisor exact xs = Fin (\<Sum>i<length xs. (xs ! i - mean xs)\<^sup>2)"
    unfolding divisor_def mx rnd_exact
    by (simp add: fsub_def fsquare_def power2_eq_square fin np_sum_Fin sm del: map_map)
qed

lemma fdiv_zero_not_finite: "\<not> is_finite (fdiv r a (Fin 0))"
  by (cases a) (simp_all add: is_finite_def)

lemma fmul_not_finite: "\<not> is_finite b \<Longrightarrow> \<not> is_finite (fmul r b m)"
  by (cases b; cases m) (simp_all add: is_finite_def)

lemma fsub_not_finite: "\<not> is_finite c \<Longrightarrow> \<not> is_finite (fsub r m c)"
  by (cases c; cases m) (simp_all add: is_finite_def fsub_def)

lemma fit_zero_divisor:
  assumes "length x = length y" and "x \<noteq> []"
    and "np_sum np (map (\<lambda>v. fsquare (rnd np) (fsub (rnd np) v (np_mean np x))) x) = Fin 0"
  shows "\<exists>b1 b0. linear_regression_coefficients np x y = Inr [b1, b0] \<and>
           \<not> is_finite b1 \<and> \<not> is_finite b0"
proof -
  let ?num = "np_sum np (map2 (fmul (rnd np)) x (map (\<lambda>v. fsub (rnd np) v (np_mean np y)) y))"
  let ?b1 = "fdiv (rnd np) ?num (Fin 0)"
  let ?b0 = "fsub (rnd np) (np_mean np y) (fmul (rnd np) ?b1 (np_mean np x))"
  from assms(1,2) have "y \<noteq> []" by auto
  with assms have "linear_regression_coefficients np x y = Inr [?b1, ?b0]"
    by (simp add: linear_regression_coefficients_def Let_def)
  moreover have b1: "\<not> is_finite ?b1"
    by (rule fdiv_zero_not_finite)
  moreover have "\<not> is_finite ?b0"
    using b1 by (intro fsub_not_finite fmul_not_finite)
  ultimately show ?thesis
    by blast
qed

subsection \<open>Evaluation\<close>

lemmas module_defs =
  linear_regression_coefficients_def linear_function_def r_squared_def total_variance_def
  residual_variance_def mean_squared_error_def root_mean_squared_error_def np_mean_def
  raw_numerator_def centred_numerator_def divisor_def fsub_def fsquare_def

lemmas float64_eval =
  float64_def seq_sum_def float64_round_def ilog2_def pow2_def round_half_even_def
  bit_length.simps Let_def

lemmas exact_eval = exact_def seq_sum_def

lemma float64_one: "rnd float64 1 = Fin 1"
  by (simp add: float64_eval)

lemma r_squared_of_line:
  assumes "length xs = length ys" and "xs \<noteq> []"
    and "\<forall>i<length xs. ys ! i = c1 * xs ! i + c0"
    and "\<not> all_identical ys"
  shows "r_squared exact (map Fin xs) (map Fin ys) [Fin c1, Fin c0] = Inr (Fin 1)"
proof -
  from assms(1,2) have ys: "ys \<noteq> []" by auto
  have sst: "(\<Sum>i<length ys. (ys ! i - mean ys)\<^sup>2) \<noteq> 0"
    using assms(4) by (simp add: all_identical_iff_sxx)
  have "(\<Sum>i<length xs. (ys ! i - (c1 * xs ! i + c0))\<^sup>2) = 0"
    using assms(3) by simp
  then have sse: "residual_variance exact (map Fin ys) (map Fin (map (\<lambda>v. c1 * v + c0) xs)) = Fin 0"
    by (simp only: residual_of_line [OF assms(1)])
  have chk: "length (map Fin xs) = length (map Fin ys)" "length (map Fin xs) \<noteq> 0"
    "length (map Fin ys) \<noteq> 0" "length [Fin c1, Fin c0] = 2"
    using assms(1,2) ys by simp_all
  have "r_squared exact (map Fin xs) (map Fin ys) [Fin c1, Fin c0] =
        Inr (fsub Fin (Fin 1) (fdiv Fin (Fin 0) (Fin (\<Sum>i<length ys. (ys ! i - mean ys)\<^sup>2))))"
    unfolding r_squared_def linear_function_Fin total_variance_Fin [OF ys] rnd_exact
    using chk by (simp only: if_False not_False_eq_True simp_thms sum.case sse)
  then show ?thesis
    using sst by (simp add: fsub_def)
qed

text \<open>
  In exact arithmetic a sequence \<open>y\<close> on a line of \<open>x\<close> that is not constant is fitted
  without error: the fit returns the line, the prediction returns \<open>y\<close>, the total sum
  of squares is not zero and r-squared is 1.
\<close>

lemma perfect_fit_exact:
  assumes "length xs = length ys" and "xs \<noteq> []"
    and "\<forall>i<length xs. ys ! i = c1 * xs ! i + c0"
    and "\<not> all_identical ys"
  shows "linear_regression_coefficients exact (map Fin xs) (map Fin ys) = Inr [Fin c1, Fin c0]"
    and "linear_function exact (map Fin xs) [Fin c1, Fin c0] = Inr (map Fin ys)"
    and "total_variance exact (map Fin ys) \<noteq> Fin 0"
    and "total_variance exact (map Fin ys) \<noteq> NaN"
    and "r_squared exact (map Fin xs) (map Fin ys) [Fin c1, Fin c0] = Inr (Fin 1)"
proof -
  from assms(1,2) have ys: "ys \<noteq> []" by auto
  have "\<not> all_identical xs"
    using line_identical [OF assms(1) _ assms(3)] assms(4) by blast
  with assms(1-3)
  show "linear_regression_coefficients exact (map Fin xs) (map Fin ys) = Inr [Fin c1, Fin c0]"
    by (rule fit_of_line)
  show "linear_function exact (map Fin xs) [Fin c1, Fin c0] = Inr (map Fin ys)"
    using assms(1,3) by (rule predict_of_line)
  have "(\<Sum>i<length ys. (ys ! i - mean ys)\<^sup>2) \<noteq> 0"
    using assms(4) by (simp add: all_identical_iff_sxx)
  then show "total_variance exact (map Fin ys) \<noteq> Fin 0"
    and "total_variance exact (map Fin ys) \<noteq> NaN"
    by (simp_all add: total_variance_Fin [OF ys])
  show "r_squared exact (map Fin xs) (map Fin ys) [Fin c1, Fin c0] = Inr (Fin 1)"
    using assms by (rule r_squared_of_line)
qed

text \<open>
  In any arithmetic that rounds 0 to 0 and 1 to 1 and sums zeros to zero: when the
  prediction returns \<open>y\<close> itself and the total sum of squares is a number other than
  zero, r-squared is 1.
\<close>

lemma r_squared_exact_fit:
  assumes "length x = length y" and "x \<noteq> []"
    and "linear_function np x [c1, c0] = Inr y"
    and "y = map Fin ys"
    and "total_variance np y \<noteq> Fin 0" and "total_variance np y \<noteq> NaN"
    and "rnd np 0 = Fin 0" and "rnd np 1 = Fin 1"
    and "np_sum np (replicate (length ys) (Fin 0)) = Fin 0"
  shows "r_squared np x y [c1, c0] = Inr (Fin 1)"
proof -
  from assms(1,2) have y: "y \<noteq> []" by auto
  have "residual_variance np y y = Fin 0"
    unfolding residual_variance_def assms(4)
    using sq_diff_self [of "rnd np" ys] assms(7,9) by simp
  moreover have "fdiv (rnd np) (Fin 0) (total_variance np y) = Fin 0"
    using assms(5,6,7) by (cases "total_variance np y") simp_all
  ultimately have "fsub (rnd np) (Fin 1)
      (fdiv (rnd np) (residual_variance np y y) (total_variance np y)) = Fin 1"
    using assms(8) by (simp add: fsub_def)
  then show ?thesis
    using assms(1,2,3) y by (simp add: r_squared_def)
qed

subsection \<open>Binary64: the rounding function at work\<close>

text \<open>
  Values within the 53 bits are kept, a tie goes to the even neighbour, \<open>0.1\<close> becomes
  the float written 0.1, the midpoint above the largest float overflows and the
  midpoint below the smallest subnormal float becomes zero.
\<close>

lemma float64_round_examples:
  "float64_round 1 = Fin 1"
  "float64_round (1 / 10) = Fin (3602879701896397 / 2 ^ 55)"
  "float64_round (2 ^ 53 + 1) = Fin (2 ^ 53)"
  "float64_round (2 ^ 53 + 3) = Fin (2 ^ 53 + 4)"
  "float64_round (- (1 / 3)) = Fin (- (6004799503160661 / 2 ^ 54))"
  by (simp_all add: float64_eval)

lemma float64_round_range:
  "float64_round (2 ^ 1024 - 2 ^ 970) = PInf"
  "float64_round (1 / 2 ^ 1075) = Fin 0"
  by (simp_all add: float64_eval)

text \<open>
  The worked example of the specification in binary64: the fit returns the floats
  written 0.6 and 2.2, the prediction of \<open>(0.2, 2.0)\<close> the floats written 2.2, 2.4,
  2.6, 2.8 and 3.0, and r-squared the float written -1.3000000000000003.
\<close>

lemma worked_example_float64:
  "linear_regression_coefficients float64 (map Fin [1, 2, 3, 4, 5]) (map Fin [2, 4, 5, 4, 5]) =
     Inr [float64_round (6 / 10), float64_round (22 / 10)]"
  "float64_round (2 / 10) = Fin (3602879701896397 / 2 ^ 54)"
  "linear_function float64 (map Fin [1, 2, 3, 4, 5]) [Fin (3602879701896397 / 2 ^ 54), Fin 2] =
     Inr [float64_round (22 / 10), float64_round (24 / 10), float64_round (26 / 10),
          float64_round (28 / 10), float64_round 3]"
  "r_squared float64 (map Fin [1, 2, 3, 4, 5]) (map Fin [2, 4, 5, 4, 5])
     [Fin (3602879701896397 / 2 ^ 54), Fin 2] = Inr (Fin (- (2927339757790823 / 2 ^ 51)))"
  "\<bar>- (2927339757790823 / 2 ^ 51) - (- (13 / 10))\<bar> < (1 / 10 ^ 15 :: real)"
  by (simp_all add: module_defs float64_eval)

subsection \<open>The raw numerator in binary64\<close>

text \<open>
  On \<open>x = y = [10\<^sup>8, 10\<^sup>8 + 1, 10\<^sup>8 + 3]\<close>, which lies on the line \<open>y = x\<close>, the
  rounding error of the mean of \<open>y\<close> is multiplied by the raw \<open>x\<^sub>i\<close>: the fit returns a
  slope near 1.32 and an intercept near \<open>-3.19 * 10\<^sup>7\<close>, with a sum of squared
  residuals near 0.476 where the line \<open>(1, 0)\<close> has 0, and r-squared near 0.898.
\<close>

lemma rounding_example_fit:
  "linear_regression_coefficients float64 (map Fin [100000000, 100000001, 100000003])
     (map Fin [100000000, 100000001, 100000003]) =
   Inr [Fin (742705841532343 / 2 ^ 49), Fin (- (1071428600000001 / 2 ^ 25))]"
  by (simp add: module_defs float64_eval)

lemma rounding_example_predict:
  "linear_function float64 (map Fin [100000000, 100000001, 100000003])
     [Fin (742705841532343 / 2 ^ 49), Fin (- (1071428600000001 / 2 ^ 25))] =
   Inr [Fin (6710886371428571 / 2 ^ 26), Fin (6710886459966007 / 2 ^ 26),
        Fin (3355443318520439 / 2 ^ 25)]"
  by (simp add: module_defs float64_eval)

lemma rounding_example_residual:
  "residual_variance float64 (map Fin [100000000, 100000001, 100000003])
     [Fin (6710886371428571 / 2 ^ 26), Fin (6710886459966007 / 2 ^ 26),
      Fin (3355443318520439 / 2 ^ 25)] = Fin (1071428592857143 / 2 ^ 51) \<and>
   linear_function float64 (map Fin [100000000, 100000001, 100000003]) [Fin 1, Fin 0] =
     Inr (map Fin [100000000, 100000001, 100000003]) \<and>
   residual_variance float64 (map Fin [100000000, 100000001, 100000003])
     (map Fin [100000000, 100000001, 100000003]) = Fin 0"
  by (simp add: module_defs float64_eval)

lemma rounding_example_r_squared:
  "r_squared float64 (map Fin [100000000, 100000001, 100000003])
     (map Fin [100000000, 100000001, 100000003])
     [Fin (742705841532343 / 2 ^ 49), Fin (- (1071428600000001 / 2 ^ 25))] =
   Inr (Fin (8088831889434869 / 2 ^ 53))"
  by (simp add: module_defs float64_eval)

section \<open>The claims\<close>

text \<open>
  C1. For equal-length non-empty real sequences the fit returns the pair \<open>(b1, b0)\<close> with
  \<open>b1 = \<Sum>(x\<^sub>i * (y\<^sub>i - mean y)) / \<Sum>(x\<^sub>i - mean x)\<^sup>2\<close> and \<open>b0 = mean y - b1 * mean x\<close>, each
  operation in the arithmetic the code runs in, whatever that arithmetic is. In exact
  arithmetic and with a nonzero divisor this is the pair of real numbers of the formula.
  The numerator is the one over the raw \<open>x\<^sub>i\<close>: it equals the one over the centred \<open>x\<^sub>i\<close>
  as a real number, because \<open>\<Sum>(mean x * (y\<^sub>i - mean y))\<close> is zero, and differs from it in
  binary64, for instance on \<open>x = y = [10\<^sup>8, 10\<^sup>8 + 1, 10\<^sup>8 + 3]\<close>.
\<close>

theorem fit_formula:
  assumes "length xs = length ys" and "xs \<noteq> []"
  shows "linear_regression_coefficients np (map Fin xs) (map Fin ys) =
           Inr [fdiv (rnd np) (raw_numerator np xs ys) (divisor np xs),
                fsub (rnd np) (np_mean np (map Fin ys))
                  (fmul (rnd np) (fdiv (rnd np) (raw_numerator np xs ys) (divisor np xs))
                     (np_mean np (map Fin xs)))]
       \<and> ((\<Sum>i<length xs. (xs ! i - mean xs)\<^sup>2) \<noteq> 0 \<longrightarrow>
            linear_regression_coefficients exact (map Fin xs) (map Fin ys) =
              Inr [Fin ((\<Sum>i<length xs. xs ! i * (ys ! i - mean ys)) /
                        (\<Sum>i<length xs. (xs ! i - mean xs)\<^sup>2)),
                   Fin (mean ys -
                        (\<Sum>i<length xs. xs ! i * (ys ! i - mean ys)) /
                        (\<Sum>i<length xs. (xs ! i - mean xs)\<^sup>2) * mean xs)])
       \<and> raw_numerator exact xs ys = centred_numerator exact xs ys
       \<and> (\<Sum>i<length xs. xs ! i * (ys ! i - mean ys)) =
           (\<Sum>i<length xs. (xs ! i - mean xs) * (ys ! i - mean ys))
       \<and> (\<Sum>i<length xs. mean xs * (ys ! i - mean ys)) = 0
       \<and> raw_numerator float64 [100000000, 100000001, 100000003]
            [100000000, 100000001, 100000003] = Fin (103293675 / 2 ^ 24)
       \<and> centred_numerator float64 [100000000, 100000001, 100000003]
            [100000000, 100000001, 100000003] = Fin (2627099782632789 / 2 ^ 49)"
proof (intro conjI impI)
  show "linear_regression_coefficients np (map Fin xs) (map Fin ys) =
           Inr [fdiv (rnd np) (raw_numerator np xs ys) (divisor np xs),
                fsub (rnd np) (np_mean np (map Fin ys))
                  (fmul (rnd np) (fdiv (rnd np) (raw_numerator np xs ys) (divisor np xs))
                     (np_mean np (map Fin xs)))]"
    using assms by (rule fit_shape)
  show "linear_regression_coefficients exact (map Fin xs) (map Fin ys) =
              Inr [Fin ((\<Sum>i<length xs. xs ! i * (ys ! i - mean ys)) /
                        (\<Sum>i<length xs. (xs ! i - mean xs)\<^sup>2)),
                   Fin (mean ys -
                        (\<Sum>i<length xs. xs ! i * (ys ! i - mean ys)) /
                        (\<Sum>i<length xs. (xs ! i - mean xs)\<^sup>2) * mean xs)]"
    if "(\<Sum>i<length xs. (xs ! i - mean xs)\<^sup>2) \<noteq> 0"
    using assms that by (rule fit_closed_form)
  show eq: "(\<Sum>i<length xs. xs ! i * (ys ! i - mean ys)) =
        (\<Sum>i<length xs. (xs ! i - mean xs) * (ys ! i - mean ys))"
    using assms by (rule sxy_centered)
  show "raw_numerator exact xs ys = centred_numerator exact xs ys"
    by (simp only: numerators_exact [OF assms] eq)
  from assms have ys: "ys \<noteq> []" by auto
  have "(\<Sum>i<length ys. mean xs * (ys ! i - mean ys)) =
        mean xs * (\<Sum>i<length ys. ys ! i - mean ys)"
    by (simp only: sum_distrib_left)
  then show "(\<Sum>i<length xs. mean xs * (ys ! i - mean ys)) = 0"
    using sum_dev_zero [OF ys] assms(1) by simp
  show "raw_numerator float64 [100000000, 100000001, 100000003]
            [100000000, 100000001, 100000003] = Fin (103293675 / 2 ^ 24)"
    by (simp add: module_defs float64_eval)
  show "centred_numerator float64 [100000000, 100000001, 100000003]
            [100000000, 100000001, 100000003] = Fin (2627099782632789 / 2 ^ 49)"
    by (simp add: module_defs float64_eval)
qed

theorem fit_formula_witness:
  "linear_regression_coefficients float64 (map Fin [1, 2, 3]) (map Fin [5, 7, 9]) =
     Inr [Fin 2, Fin 3]"
proof -
  have "linear_regression_coefficients float64 (map Fin [1, 2, 3]) (map Fin [5, 7, 9]) =
      Inr [fdiv (rnd float64) (raw_numerator float64 [1, 2, 3] [5, 7, 9])
             (divisor float64 [1, 2, 3]),
           fsub (rnd float64) (np_mean float64 (map Fin [5, 7, 9]))
             (fmul (rnd float64)
                (fdiv (rnd float64) (raw_numerator float64 [1, 2, 3] [5, 7, 9])
                   (divisor float64 [1, 2, 3]))
                (np_mean float64 (map Fin [1, 2, 3])))]"
    using fit_formula [of "[1, 2, 3]" "[5, 7, 9]" float64] by simp
  also have "\<dots> = Inr [Fin 2, Fin 3]"
    by (simp add: module_defs float64_eval)
  finally show ?thesis .
qed

text \<open>
  C2. Least-squares optimality. As stated, for every pair of equal-length non-empty
  sequences, the claim fails: when all \<open>x\<^sub>i\<close> are the same value (a single point is
  enough) the fit divides zero by zero, the coefficients and the predictions are not
  numbers, and their sum of squared residuals compares below nothing.
\<close>

theorem least_squares_degenerate_counterexample:
  "linear_regression_coefficients float64 [Fin 1] [Fin 1] = Inr [NaN, NaN] \<and>
   linear_function float64 [Fin 1] [NaN, NaN] = Inr [NaN] \<and>
   linear_function float64 [Fin 1] [Fin 0, Fin 1] = Inr [Fin 1] \<and>
   \<not> fle (residual_variance float64 [Fin 1] [NaN]) (residual_variance float64 [Fin 1] [Fin 1])"
  by (simp add: module_defs float64_eval)

text \<open>
  C2, amended. For equal-length non-empty real sequences whose \<open>x\<^sub>i\<close> are not all the same
  value, and on which the fit and the prediction are free of rounding error (they return
  what exact arithmetic returns), the sum of squared residuals of \<open>y\<close> against the
  prediction of the fitted coefficients is at most the one against \<open>c1 * x\<^sub>i + c0\<close>, for
  any real coefficients \<open>(c1, c0)\<close>.
\<close>

theorem least_squares_optimal:
  assumes "length xs = length ys" and "xs \<noteq> []" and "\<not> all_identical xs"
    and "linear_regression_coefficients np (map Fin xs) (map Fin ys) =
         linear_regression_coefficients exact (map Fin xs) (map Fin ys)"
    and "\<forall>coef. linear_regression_coefficients np (map Fin xs) (map Fin ys) = Inr coef \<longrightarrow>
           linear_function np (map Fin xs) coef = linear_function exact (map Fin xs) coef"
  shows "\<exists>coef ps.
           linear_regression_coefficients np (map Fin xs) (map Fin ys) = Inr coef \<and>
           linear_function np (map Fin xs) coef = Inr (map Fin ps) \<and>
           length ps = length xs \<and>
           (\<Sum>i<length xs. (ys ! i - ps ! i)\<^sup>2) \<le>
           (\<Sum>i<length xs. (ys ! i - (c1 * xs ! i + c0))\<^sup>2)"
proof -
  define b1 where "b1 = (\<Sum>i<length xs. xs ! i * (ys ! i - mean ys)) /
                        (\<Sum>i<length xs. (xs ! i - mean xs)\<^sup>2)"
  define b0 where "b0 = mean ys - b1 * mean xs"
  define ps where "ps = map (\<lambda>v. b1 * v + b0) xs"
  have sxx: "(\<Sum>i<length xs. (xs ! i - mean xs)\<^sup>2) \<noteq> 0"
    using assms(3) by (simp add: all_identical_iff_sxx)
  have "linear_regression_coefficients exact (map Fin xs) (map Fin ys) = Inr [Fin b1, Fin b0]"
    unfolding b0_def b1_def using assms(1,2) sxx by (rule fit_closed_form)
  with assms(4)
  have fit: "linear_regression_coefficients np (map Fin xs) (map Fin ys) = Inr [Fin b1, Fin b0]"
    by simp
  with assms(5)
  have "linear_function np (map Fin xs) [Fin b1, Fin b0] =
        linear_function exact (map Fin xs) [Fin b1, Fin b0]"
    by blast
  then have pred: "linear_function np (map Fin xs) [Fin b1, Fin b0] = Inr (map Fin ps)"
    by (simp only: linear_function_Fin ps_def)
  have len: "length ps = length xs"
    by (simp add: ps_def)
  have "(\<Sum>i<length xs. (ys ! i - ps ! i)\<^sup>2) =
        (\<Sum>i<length xs. (ys ! i - (b1 * xs ! i + b0))\<^sup>2)"
    by (rule sum.cong) (simp_all add: ps_def)
  also have "\<dots> \<le> (\<Sum>i<length xs. (ys ! i - (c1 * xs ! i + c0))\<^sup>2)"
    using assms(1,2) sxx b1_def b0_def by (rule least_squares)
  finally have "(\<Sum>i<length xs. (ys ! i - ps ! i)\<^sup>2) \<le>
                (\<Sum>i<length xs. (ys ! i - (c1 * xs ! i + c0))\<^sup>2)" .
  with fit pred len show ?thesis
    by (intro exI conjI)
qed

theorem least_squares_optimal_witness:
  "\<not> all_identical [1, 2, 3] \<and>
   linear_regression_coefficients float64 (map Fin [1, 2, 3]) (map Fin [5, 7, 9]) =
     linear_regression_coefficients exact (map Fin [1, 2, 3]) (map Fin [5, 7, 9]) \<and>
   (\<exists>coef ps.
      linear_regression_coefficients float64 (map Fin [1, 2, 3]) (map Fin [5, 7, 9]) = Inr coef \<and>
      linear_function float64 (map Fin [1, 2, 3]) coef = Inr (map Fin ps) \<and>
      length ps = length [1, 2, 3 :: real] \<and>
      (\<Sum>i<length [1, 2, 3 :: real]. ([5, 7, 9] ! i - ps ! i)\<^sup>2) \<le>
      (\<Sum>i<length [1, 2, 3 :: real]. ([5, 7, 9] ! i - (0 * [1, 2, 3] ! i + 7))\<^sup>2))"
proof (intro conjI)
  show h: "\<not> all_identical [1, 2, 3]"
    by (simp add: all_identical_def)
  have f: "linear_regression_coefficients float64 (map Fin [1, 2, 3]) (map Fin [5, 7, 9]) =
      Inr [Fin 2, Fin 3]"
    by (simp add: module_defs float64_eval)
  have e: "linear_regression_coefficients exact (map Fin [1, 2, 3]) (map Fin [5, 7, 9]) =
      Inr [Fin 2, Fin 3]"
    by (simp add: module_defs exact_eval)
  show fe: "linear_regression_coefficients float64 (map Fin [1, 2, 3]) (map Fin [5, 7, 9]) =
     linear_regression_coefficients exact (map Fin [1, 2, 3]) (map Fin [5, 7, 9])"
    by (simp only: f e)
  have "linear_function float64 (map Fin [1, 2, 3]) [Fin 2, Fin 3] =
        linear_function exact (map Fin [1, 2, 3]) [Fin 2, Fin 3]"
    by (simp add: module_defs float64_eval exact_eval)
  then have p: "\<forall>coef. linear_regression_coefficients float64 (map Fin [1, 2, 3])
        (map Fin [5, 7, 9]) = Inr coef \<longrightarrow>
      linear_function float64 (map Fin [1, 2, 3]) coef =
      linear_function exact (map Fin [1, 2, 3]) coef"
    by (simp only: f) simp
  have "length [1, 2, 3 :: real] = length [5, 7, 9 :: real]" and "[1, 2, 3 :: real] \<noteq> []"
    by simp_all
  then show "\<exists>coef ps.
      linear_regression_coefficients float64 (map Fin [1, 2, 3]) (map Fin [5, 7, 9]) = Inr coef \<and>
      linear_function float64 (map Fin [1, 2, 3]) coef = Inr (map Fin ps) \<and>
      length ps = length [1, 2, 3 :: real] \<and>
      (\<Sum>i<length [1, 2, 3 :: real]. ([5, 7, 9] ! i - ps ! i)\<^sup>2) \<le>
      (\<Sum>i<length [1, 2, 3 :: real]. ([5, 7, 9] ! i - (0 * [1, 2, 3] ! i + 7))\<^sup>2)"
    using h fe p by (rule least_squares_optimal)
qed

text \<open>
  C3. The worked example, as stated: on \<open>x = [1,2,3,4,5]\<close> and \<open>y = [2,4,5,4,5]\<close> the
  fit is said to return \<open>(0.2, 2.0)\<close>, r-squared of these coefficients \<open>0.24\<close> and the
  mean squared error of \<open>y\<close> against their prediction \<open>0.048\<close>. The code returns none of
  these three values.
\<close>

theorem worked_example_counterexample:
  "linear_regression_coefficients exact (map Fin [1, 2, 3, 4, 5]) (map Fin [2, 4, 5, 4, 5])
     \<noteq> Inr [Fin (2 / 10), Fin 2] \<and>
   r_squared exact (map Fin [1, 2, 3, 4, 5]) (map Fin [2, 4, 5, 4, 5]) [Fin (2 / 10), Fin 2]
     \<noteq> Inr (Fin (24 / 100)) \<and>
   mean_squared_error exact (map Fin [2, 4, 5, 4, 5])
       (map Fin [22 / 10, 24 / 10, 26 / 10, 28 / 10, 3])
     \<noteq> Inr (Fin (48 / 1000))"
proof (intro conjI)
  show "linear_regression_coefficients exact (map Fin [1, 2, 3, 4, 5]) (map Fin [2, 4, 5, 4, 5])
     \<noteq> Inr [Fin (2 / 10), Fin 2]"
    by (simp add: module_defs exact_eval)
  show "r_squared exact (map Fin [1, 2, 3, 4, 5]) (map Fin [2, 4, 5, 4, 5]) [Fin (2 / 10), Fin 2]
     \<noteq> Inr (Fin (24 / 100))"
    by (simp add: module_defs exact_eval)
  show "mean_squared_error exact (map Fin [2, 4, 5, 4, 5])
       (map Fin [22 / 10, 24 / 10, 26 / 10, 28 / 10, 3])
     \<noteq> Inr (Fin (48 / 1000))"
    by (simp add: module_defs exact_eval)
qed

text \<open>
  C3, amended. On the same inputs the fit returns \<open>(0.6, 2.2)\<close>; the prediction of
  \<open>(0.2, 2.0)\<close> is \<open>[2.2, 2.4, 2.6, 2.8, 3.0]\<close>; r-squared of \<open>(0.2, 2.0)\<close> is \<open>-1.3\<close>; the
  mean squared error of \<open>y\<close> against that prediction is \<open>2.76\<close>, and its root is
  \<open>sqrt 2.76\<close>, between \<open>1.6613\<close> and \<open>1.6614\<close>. The values are those of exact
  arithmetic, which the decimal numbers of the example denote.
\<close>

theorem worked_example:
  "linear_regression_coefficients exact (map Fin [1, 2, 3, 4, 5]) (map Fin [2, 4, 5, 4, 5])
     = Inr [Fin (6 / 10), Fin (22 / 10)] \<and>
   linear_function exact (map Fin [1, 2, 3, 4, 5]) [Fin (2 / 10), Fin 2]
     = Inr (map Fin [22 / 10, 24 / 10, 26 / 10, 28 / 10, 3]) \<and>
   r_squared exact (map Fin [1, 2, 3, 4, 5]) (map Fin [2, 4, 5, 4, 5]) [Fin (2 / 10), Fin 2]
     = Inr (Fin (- (13 / 10))) \<and>
   mean_squared_error exact (map Fin [2, 4, 5, 4, 5])
       (map Fin [22 / 10, 24 / 10, 26 / 10, 28 / 10, 3])
     = Inr (Fin (276 / 100)) \<and>
   root_mean_squared_error exact (map Fin [2, 4, 5, 4, 5])
       (map Fin [22 / 10, 24 / 10, 26 / 10, 28 / 10, 3])
     = Inr (Fin (sqrt (276 / 100))) \<and>
   16613 / 10000 < sqrt (276 / 100) \<and> sqrt (276 / 100) < 16614 / 10000"
proof (intro conjI)
  show "linear_regression_coefficients exact (map Fin [1, 2, 3, 4, 5]) (map Fin [2, 4, 5, 4, 5])
     = Inr [Fin (6 / 10), Fin (22 / 10)]"
    by (simp add: module_defs exact_eval)
  show "linear_function exact (map Fin [1, 2, 3, 4, 5]) [Fin (2 / 10), Fin 2]
     = Inr (map Fin [22 / 10, 24 / 10, 26 / 10, 28 / 10, 3])"
    by (simp add: module_defs exact_eval)
  show "r_squared exact (map Fin [1, 2, 3, 4, 5]) (map Fin [2, 4, 5, 4, 5]) [Fin (2 / 10), Fin 2]
     = Inr (Fin (- (13 / 10)))"
    by (simp add: module_defs exact_eval)
  show m: "mean_squared_error exact (map Fin [2, 4, 5, 4, 5])
       (map Fin [22 / 10, 24 / 10, 26 / 10, 28 / 10, 3])
     = Inr (Fin (276 / 100))"
    by (simp add: module_defs exact_eval)
  have "length (map Fin [2, 4, 5, 4, 5]) = length (map Fin [22 / 10, 24 / 10, 26 / 10, 28 / 10, 3])"
    by simp
  then show "root_mean_squared_error exact (map Fin [2, 4, 5, 4, 5])
       (map Fin [22 / 10, 24 / 10, 26 / 10, 28 / 10, 3])
     = Inr (Fin (sqrt (276 / 100)))"
    unfolding root_mean_squared_error_def m by (simp add: rnd_exact)
  show "16613 / 10000 < sqrt (276 / 100)" "sqrt (276 / 100) < 16614 / 10000"
    using sqrt_69_25_bounds by simp_all
qed

text \<open>
  C4. As stated, r-squared of the fitted coefficients is 1 whenever \<open>y\<close> lies on a line
  of \<open>x\<close>. A horizontal line is such a line: then \<open>y\<close> is constant, the total sum of
  squares is zero, and the unguarded division of zero by zero makes the result NaN.
\<close>

theorem perfect_fit_constant_counterexample:
  "linear_regression_coefficients float64 (map Fin [1, 2]) (map Fin [3, 3]) = Inr [Fin 0, Fin 3] \<and>
   r_squared float64 (map Fin [1, 2]) (map Fin [3, 3]) [Fin 0, Fin 3] = Inr NaN \<and>
   r_squared float64 (map Fin [1, 2]) (map Fin [3, 3]) [Fin 0, Fin 3] \<noteq> Inr (Fin 1)"
  by (simp add: module_defs float64_eval)

text \<open>
  C4, amended. For equal-length non-empty real sequences with \<open>y\<^sub>i = c1 * x\<^sub>i + c0\<close> for
  every \<open>i\<close>: whenever the fit returns \<open>(c1, c0)\<close> and the prediction of \<open>(c1, c0)\<close> returns
  \<open>y\<close>, both free of rounding error, and the total sum of squares the code computes is
  a number other than zero (so \<open>y\<close> is not constant), r-squared of the fitted coefficients
  is 1. The arithmetic is any that rounds 0 to 0 and 1 to 1 and sums zeros to zero, as
  binary64 does.
\<close>

theorem r_squared_perfect_fit:
  assumes "length xs = length ys" and "xs \<noteq> []"
    and "\<forall>i<length xs. ys ! i = c1 * xs ! i + c0"
    and "linear_regression_coefficients np (map Fin xs) (map Fin ys) = Inr [Fin c1, Fin c0]"
    and "linear_function np (map Fin xs) [Fin c1, Fin c0] = Inr (map Fin ys)"
    and "total_variance np (map Fin ys) \<noteq> Fin 0" and "total_variance np (map Fin ys) \<noteq> NaN"
    and "rnd np 0 = Fin 0" and "rnd np 1 = Fin 1"
    and "np_sum np (replicate (length ys) (Fin 0)) = Fin 0"
  shows "\<exists>coef. linear_regression_coefficients np (map Fin xs) (map Fin ys) = Inr coef \<and>
           r_squared np (map Fin xs) (map Fin ys) coef = Inr (Fin 1)"
proof -
  have "length (map Fin xs) = length (map Fin ys)" and "map Fin xs \<noteq> []"
    using assms(1,2) by simp_all
  then have "r_squared np (map Fin xs) (map Fin ys) [Fin c1, Fin c0] = Inr (Fin 1)"
    using assms(5) refl assms(6-10) by (rule r_squared_exact_fit)
  with assms(4) show ?thesis
    by (intro exI conjI)
qed

theorem r_squared_perfect_fit_witness:
  "linear_regression_coefficients float64 (map Fin [1, 2, 3]) (map Fin [5, 7, 9]) =
     Inr [Fin 2, Fin 3] \<and>
   linear_function float64 (map Fin [1, 2, 3]) [Fin 2, Fin 3] = Inr (map Fin [5, 7, 9]) \<and>
   total_variance float64 (map Fin [5, 7, 9]) = Fin 8 \<and>
   (\<exists>coef. linear_regression_coefficients float64 (map Fin [1, 2, 3]) (map Fin [5, 7, 9]) =
        Inr coef \<and>
      r_squared float64 (map Fin [1, 2, 3]) (map Fin [5, 7, 9]) coef = Inr (Fin 1))"
proof (intro conjI)
  show f: "linear_regression_coefficients float64 (map Fin [1, 2, 3]) (map Fin [5, 7, 9]) =
     Inr [Fin 2, Fin 3]"
    by (simp add: module_defs float64_eval)
  show p: "linear_function float64 (map Fin [1, 2, 3]) [Fin 2, Fin 3] = Inr (map Fin [5, 7, 9])"
    by (simp add: module_defs float64_eval)
  show t: "total_variance float64 (map Fin [5, 7, 9]) = Fin 8"
    by (simp add: module_defs float64_eval)
  have t0: "total_variance float64 (map Fin [5, 7, 9]) \<noteq> Fin 0"
    and t1: "total_variance float64 (map Fin [5, 7, 9]) \<noteq> NaN"
    by (simp_all only: t) simp_all
  have l: "length [1, 2, 3 :: real] = length [5, 7, 9 :: real]" and n: "[1, 2, 3 :: real] \<noteq> []"
    and o: "\<forall>i<length [1, 2, 3 :: real]. [5, 7, 9] ! i = 2 * [1, 2, 3] ! i + (3 :: real)"
    by (simp_all add: nth_Cons' less_Suc_eq numeral_3_eq_3)
  have z: "rnd float64 0 = Fin 0"
    and s: "np_sum float64 (replicate (length [5, 7, 9 :: real]) (Fin 0)) = Fin 0"
    using float64_zeros [of "length [5, 7, 9 :: real]"] by simp_all
  show "\<exists>coef. linear_regression_coefficients float64 (map Fin [1, 2, 3]) (map Fin [5, 7, 9]) =
        Inr coef \<and>
      r_squared float64 (map Fin [1, 2, 3]) (map Fin [5, 7, 9]) coef = Inr (Fin 1)"
    using l n o f p t0 t1 z float64_one s by (rule r_squared_perfect_fit)
qed

text \<open>
  C5. As stated, all five operations raise on empty sequences. The prediction does not:
  it checks the coefficient list only, and an empty \<open>x\<close> gives an empty result.
\<close>

theorem empty_input_predict_counterexample:
  "linear_function float64 [] [Fin 1, Fin 2] = Inr [] \<and>
   \<not> invalid_argument (linear_function float64 [] [Fin 1, Fin 2])"
  by (simp add: linear_function_def invalid_argument_def)

text \<open>
  C5, amended. The fit, r-squared, the mean squared error and its root raise
  InvalidArgument when one of the paired sequences is empty or their lengths differ.
  The prediction raises it for an empty coefficient list, and for an empty \<open>x\<close> with
  two coefficients it returns the empty sequence.
\<close>

theorem empty_or_mismatch_raises:
  "(x = [] \<or> y = [] \<or> length x \<noteq> length y \<longrightarrow>
      invalid_argument (linear_regression_coefficients np x y) \<and>
      invalid_argument (r_squared np x y coef) \<and>
      invalid_argument (mean_squared_error np x y) \<and>
      invalid_argument (root_mean_squared_error np x y)) \<and>
   (coef = [] \<longrightarrow> invalid_argument (linear_function np x coef)) \<and>
   (length coef = 2 \<longrightarrow> linear_function np [] coef = Inr [])"
  using fit_invalid_iff [of np x y] r_squared_invalid_iff [of np x y coef]
    mse_invalid_iff [of np x y] rmse_invalid_iff [of np x y] predict_invalid_iff [of np x coef]
  by (auto simp: linear_function_def)

theorem empty_or_mismatch_raises_witness:
  "invalid_argument (linear_regression_coefficients float64 [] []) \<and>
   invalid_argument (r_squared float64 [] [] [Fin 1, Fin 2]) \<and>
   invalid_argument (mean_squared_error float64 [] []) \<and>
   invalid_argument (root_mean_squared_error float64 [] []) \<and>
   invalid_argument (linear_regression_coefficients float64 [Fin 1] [Fin 1, Fin 2]) \<and>
   invalid_argument (r_squared float64 [Fin 1] [Fin 1, Fin 2] [Fin 1, Fin 2]) \<and>
   invalid_argument (mean_squared_error float64 [Fin 1] [Fin 1, Fin 2]) \<and>
   invalid_argument (root_mean_squared_error float64 [Fin 1] [Fin 1, Fin 2]) \<and>
   linear_function float64 [] [Fin 1, Fin 2] = Inr []"
  using empty_or_mismatch_raises [of "[]" "[]" float64 "[Fin 1, Fin 2]"]
    empty_or_mismatch_raises [of "[Fin 1]" "[Fin 1, Fin 2]" float64 "[Fin 1, Fin 2]"]
  by simp

text \<open>
  C6. The prediction fails with InvalidArgument exactly when the coefficient list does
  not have two elements. Otherwise it returns a sequence as long as \<open>x\<close> whose i-th
  element is \<open>b1 * x\<^sub>i + b0\<close>, computed in the code's arithmetic, whatever that is, and
  equal to the real number \<open>b1 * x\<^sub>i + b0\<close> in exact arithmetic; for an empty \<open>x\<close> that is
  the empty sequence.
\<close>

theorem predict_spec:
  "(invalid_argument (linear_function np x coef) \<longleftrightarrow> length coef \<noteq> 2) \<and>
   (length coef = 2 \<longrightarrow>
      (\<exists>out. linear_function np x coef = Inr out \<and> length out = length x \<and>
         (\<forall>i<length x. out ! i =
            fadd (rnd np) (fmul (rnd np) (coef ! 0) (x ! i)) (coef ! 1)))) \<and>
   linear_function exact (map Fin xs) [Fin b1, Fin b0] =
     Inr (map (\<lambda>v. Fin (b1 * v + b0)) xs) \<and>
   linear_function np [] [c1, c0] = Inr []"
  by (simp add: predict_invalid_iff linear_function_Fin) (simp add: linear_function_def)

theorem predict_spec_witness:
  "invalid_argument (linear_function float64 [Fin 1, Fin 2] [Fin 3]) \<and>
   \<not> invalid_argument (linear_function float64 [] [Fin 3, Fin 4]) \<and>
   linear_function exact (map Fin [1, 2]) [Fin 3, Fin 4] = Inr [Fin 7, Fin 10]"
  using predict_spec [of float64 "[Fin 1, Fin 2]" "[Fin 3]" "[1, 2]" 3 4 NaN NaN]
    predict_spec [of float64 "[]" "[Fin 3, Fin 4]" "[]" 0 0 NaN NaN]
  by (simp add: invalid_argument_def)

text \<open>
  C7. On equal-length non-empty inputs the root mean squared error is the square root
  of the mean squared error, and it raises InvalidArgument exactly when the mean
  squared error does: on a length mismatch or an empty input. This holds in any
  arithmetic; in exact arithmetic the two values are a real number and its root.
\<close>

theorem rmse_sqrt_of_mse:
  "(length a = length b \<and> a \<noteq> [] \<longrightarrow>
      (\<exists>m. mean_squared_error np a b = Inr m \<and>
           root_mean_squared_error np a b = Inr (np_sqrt (rnd np) m))) \<and>
   (invalid_argument (root_mean_squared_error np a b) \<longleftrightarrow>
      invalid_argument (mean_squared_error np a b)) \<and>
   (invalid_argument (mean_squared_error np a b) \<longleftrightarrow>
      length a \<noteq> length b \<or> a = [] \<or> b = []) \<and>
   (length as = length bs \<and> as \<noteq> [] \<longrightarrow>
      (\<exists>m. mean_squared_error exact (map Fin as) (map Fin bs) = Inr (Fin m) \<and>
           root_mean_squared_error exact (map Fin as) (map Fin bs) = Inr (Fin (sqrt m))))"
proof (intro conjI impI)
  assume "length a = length b \<and> a \<noteq> []"
  then show "\<exists>m. mean_squared_error np a b = Inr m \<and>
           root_mean_squared_error np a b = Inr (np_sqrt (rnd np) m)"
    by (auto simp: root_mean_squared_error_def mean_squared_error_def)
next
  show "invalid_argument (root_mean_squared_error np a b) \<longleftrightarrow>
      invalid_argument (mean_squared_error np a b)"
    by (simp only: rmse_invalid_iff mse_invalid_iff)
next
  show "invalid_argument (mean_squared_error np a b) \<longleftrightarrow>
      length a \<noteq> length b \<or> a = [] \<or> b = []"
    by (rule mse_invalid_iff)
next
  assume "length as = length bs \<and> as \<noteq> []"
  then show "\<exists>m. mean_squared_error exact (map Fin as) (map Fin bs) = Inr (Fin m) \<and>
           root_mean_squared_error exact (map Fin as) (map Fin bs) = Inr (Fin (sqrt m))"
    by (simp add: mse_Fin rmse_Fin)
qed

theorem rmse_sqrt_of_mse_witness:
  "mean_squared_error float64 (map Fin [1, 7]) (map Fin [0, 0]) = Inr (Fin 25) \<and>
   root_mean_squared_error float64 (map Fin [1, 7]) (map Fin [0, 0]) =
     Inr (np_sqrt (rnd float64) (Fin 25)) \<and>
   invalid_argument (root_mean_squared_error float64 [Fin 1] [])"
proof -
  have m: "mean_squared_error float64 (map Fin [1, 7]) (map Fin [0, 0]) = Inr (Fin 25)"
    by (simp add: module_defs float64_eval)
  from rmse_sqrt_of_mse [of "map Fin [1, 7]" "map Fin [0, 0]" float64 "[]" "[]"] m
  have "root_mean_squared_error float64 (map Fin [1, 7]) (map Fin [0, 0]) =
      Inr (np_sqrt (rnd float64) (Fin 25))"
    by simp
  moreover from rmse_sqrt_of_mse [of "[Fin 1]" "[]" float64 "[]" "[]"]
  have "invalid_argument (root_mean_squared_error float64 [Fin 1] [])"
    by simp
  ultimately show ?thesis
    using m by simp
qed

text \<open>
  C8. As stated, the fit returns a non-finite result whenever all \<open>x\<^sub>i\<close> are the same
  value. In binary64 the mean of identical values can be rounded away from them: for
  three times the float nearest to 0.1 the divisor is not zero and the result is the
  finite pair \<open>(0, 3)\<close>.
\<close>

theorem identical_x_finite_counterexample:
  "all_identical [3602879701896397 / 2 ^ 55, 3602879701896397 / 2 ^ 55,
     3602879701896397 / 2 ^ 55] \<and>
   float64_round (1 / 10) = Fin (3602879701896397 / 2 ^ 55) \<and>
   linear_regression_coefficients float64
     (map Fin [3602879701896397 / 2 ^ 55, 3602879701896397 / 2 ^ 55,
        3602879701896397 / 2 ^ 55])
     (map Fin [1, 5, 3]) = Inr [Fin 0, Fin 3] \<and>
   is_finite (Fin 0) \<and> is_finite (Fin 3)"
proof (intro conjI)
  show "all_identical [3602879701896397 / 2 ^ 55, 3602879701896397 / 2 ^ 55,
     3602879701896397 / 2 ^ 55]"
    by (simp add: all_identical_def)
  show "float64_round (1 / 10) = Fin (3602879701896397 / 2 ^ 55)"
    by (simp add: float64_eval)
  show "linear_regression_coefficients float64
     (map Fin [3602879701896397 / 2 ^ 55, 3602879701896397 / 2 ^ 55,
        3602879701896397 / 2 ^ 55])
     (map Fin [1, 5, 3]) = Inr [Fin 0, Fin 3]"
    by (simp add: module_defs float64_eval)
  show "is_finite (Fin 0)" "is_finite (Fin 3)"
    by (simp_all add: is_finite_def)
qed

text \<open>
  C8, amended. The fit fails with InvalidArgument exactly when the lengths differ or a
  sequence is empty. In particular, when the divisor it computes is zero it does not
  raise: the unguarded division makes the slope and the intercept NaN or infinite.
\<close>

theorem fit_fails_only_on_lengths:
  "(invalid_argument (linear_regression_coefficients np x y) \<longleftrightarrow>
      length x \<noteq> length y \<or> x = [] \<or> y = []) \<and>
   (length x = length y \<and> x \<noteq> [] \<and>
    np_sum np (map (\<lambda>v. fsquare (rnd np) (fsub (rnd np) v (np_mean np x))) x) = Fin 0 \<longrightarrow>
      (\<exists>b1 b0. linear_regression_coefficients np x y = Inr [b1, b0] \<and>
         \<not> is_finite b1 \<and> \<not> is_finite b0))"
  using fit_invalid_iff [of np x y] fit_zero_divisor [of x y np] by blast

theorem fit_fails_only_on_lengths_witness:
  "invalid_argument (linear_regression_coefficients float64 [Fin 1] []) \<and>
   \<not> invalid_argument (linear_regression_coefficients float64 [Fin 1, Fin 2] [Fin 3, Fin 4]) \<and>
   np_sum float64 (map (\<lambda>v. fsquare (rnd float64)
       (fsub (rnd float64) v (np_mean float64 [Fin 2, Fin 2, Fin 2]))) [Fin 2, Fin 2, Fin 2]) =
     Fin 0 \<and>
   (\<exists>b1 b0. linear_regression_coefficients float64 [Fin 2, Fin 2, Fin 2]
        [Fin 1, Fin 5, Fin 3] = Inr [b1, b0] \<and>
      \<not> is_finite b1 \<and> \<not> is_finite b0)"
proof (intro conjI)
  show "invalid_argument (linear_regression_coefficients float64 [Fin 1] [])"
    using fit_fails_only_on_lengths [of float64 "[Fin 1]" "[]"] by simp
  show "\<not> invalid_argument (linear_regression_coefficients float64 [Fin 1, Fin 2] [Fin 3, Fin 4])"
    using fit_fails_only_on_lengths [of float64 "[Fin 1, Fin 2]" "[Fin 3, Fin 4]"] by simp
  show z: "np_sum float64 (map (\<lambda>v. fsquare (rnd float64)
       (fsub (rnd float64) v (np_mean float64 [Fin 2, Fin 2, Fin 2]))) [Fin 2, Fin 2, Fin 2]) =
     Fin 0"
    by (simp add: module_defs float64_eval)
  show "\<exists>b1 b0. linear_regression_coefficients float64 [Fin 2, Fin 2, Fin 2]
        [Fin 1, Fin 5, Fin 3] = Inr [b1, b0] \<and>
      \<not> is_finite b1 \<and> \<not> is_finite b0"
    using fit_fails_only_on_lengths [of float64 "[Fin 2, Fin 2, Fin 2]" "[Fin 1, Fin 5, Fin 3]"] z
    by simp
qed

text \<open>
  C9. The mean squared error of a non-empty real sequence against itself is zero: in
  exact arithmetic, and in any arithmetic that rounds zero to zero and sums zeros to
  zero, as binary64 does.
\<close>

theorem mse_identical:
  assumes "ys \<noteq> []"
  shows "mean_squared_error exact (map Fin ys) (map Fin ys) = Inr (Fin 0) \<and>
         (rnd np 0 = Fin 0 \<and> np_sum np (replicate (length ys) (Fin 0)) = Fin 0 \<longrightarrow>
            mean_squared_error np (map Fin ys) (map Fin ys) = Inr (Fin 0))"
proof (intro conjI impI)
  show "mean_squared_error exact (map Fin ys) (map Fin ys) = Inr (Fin 0)"
    using assms by (simp add: mse_Fin)
  assume "rnd np 0 = Fin 0 \<and> np_sum np (replicate (length ys) (Fin 0)) = Fin 0"
  then show "mean_squared_error np (map Fin ys) (map Fin ys) = Inr (Fin 0)"
    using assms by (intro mse_self) simp_all
qed

theorem mse_identical_witness:
  "mean_squared_error exact (map Fin [1, 2, 3]) (map Fin [1, 2, 3]) = Inr (Fin 0) \<and>
   mean_squared_error float64 (map Fin [1, 2, 3]) (map Fin [1, 2, 3]) = Inr (Fin 0)"
  using mse_identical [of "[1, 2, 3]" float64] float64_zeros [of "length [1, 2, 3 :: real]"]
  by simp

text \<open>
  C10. The mean squared error and its root are symmetric in their two arguments: in
  exact arithmetic, where on equal-length non-empty real sequences both orders return
  the same number, and in any arithmetic whose rounding is symmetric about zero, as
  that of binary64 is.
\<close>

theorem mse_symmetric:
  "mean_squared_error exact a b = mean_squared_error exact b a \<and>
   root_mean_squared_error exact a b = root_mean_squared_error exact b a \<and>
   (length as = length bs \<and> as \<noteq> [] \<longrightarrow>
      (\<exists>m. mean_squared_error exact (map Fin as) (map Fin bs) = Inr (Fin m) \<and>
           mean_squared_error exact (map Fin bs) (map Fin as) = Inr (Fin m) \<and>
           root_mean_squared_error exact (map Fin as) (map Fin bs) = Inr (Fin (sqrt m)) \<and>
           root_mean_squared_error exact (map Fin bs) (map Fin as) = Inr (Fin (sqrt m)))) \<and>
   ((\<forall>v. rnd np (- v) = fneg (rnd np v)) \<longrightarrow>
      mean_squared_error np a b = mean_squared_error np b a \<and>
      root_mean_squared_error np a b = root_mean_squared_error np b a)"
proof (intro conjI impI)
  show "mean_squared_error exact a b = mean_squared_error exact b a"
    using exact_symmetric by (rule mse_commute)
  show "root_mean_squared_error exact a b = root_mean_squared_error exact b a"
    using exact_symmetric by (rule rmse_commute)
  show "mean_squared_error np a b = mean_squared_error np b a"
    if "\<forall>v. rnd np (- v) = fneg (rnd np v)"
    using that by (rule mse_commute)
  show "root_mean_squared_error np a b = root_mean_squared_error np b a"
    if "\<forall>v. rnd np (- v) = fneg (rnd np v)"
    using that by (rule rmse_commute)
  assume h: "length as = length bs \<and> as \<noteq> []"
  then have "mean_squared_error exact (map Fin as) (map Fin bs) =
      Inr (Fin ((\<Sum>i<length as. (as ! i - bs ! i)\<^sup>2) / real (length as)))"
    and "root_mean_squared_error exact (map Fin as) (map Fin bs) =
      Inr (Fin (sqrt ((\<Sum>i<length as. (as ! i - bs ! i)\<^sup>2) / real (length as))))"
    by (simp_all add: mse_Fin rmse_Fin)
  then show "\<exists>m. mean_squared_error exact (map Fin as) (map Fin bs) = Inr (Fin m) \<and>
           mean_squared_error exact (map Fin bs) (map Fin as) = Inr (Fin m) \<and>
           root_mean_squared_error exact (map Fin as) (map Fin bs) = Inr (Fin (sqrt m)) \<and>
           root_mean_squared_error exact (map Fin bs) (map Fin as) = Inr (Fin (sqrt m))"
    using mse_commute [OF exact_symmetric, of "map Fin bs" "map Fin as"]
      rmse_commute [OF exact_symmetric, of "map Fin bs" "map Fin as"]
    by simp
qed

theorem mse_symmetric_witness:
  "mean_squared_error float64 (map Fin [1, 7]) (map Fin [0, 0]) =
     mean_squared_error float64 (map Fin [0, 0]) (map Fin [1, 7]) \<and>
   root_mean_squared_error float64 (map Fin [1, 7]) (map Fin [0, 0]) =
     root_mean_squared_error float64 (map Fin [0, 0]) (map Fin [1, 7]) \<and>
   mean_squared_error float64 (map Fin [0, 0]) (map Fin [1, 7]) = Inr (Fin 25)"
proof -
  have m: "mean_squared_error float64 (map Fin [1, 7]) (map Fin [0, 0]) = Inr (Fin 25)"
    by (simp add: module_defs float64_eval)
  from mse_symmetric [of "map Fin [1, 7]" "map Fin [0, 0]" "[1, 7]" "[0, 0]" float64]
    float64_symmetric m
  show ?thesis by simp
qed

end
